theory Spec2Isabelle
  imports Complex_Main "HOL-Library.Finite_Map" "HOL-Library.Sublist" "HOL-Library.DAList"
begin

section \<open>Values and exceptions of the Python program\<close>

text \<open>
  The program works on the loosely typed values that \<^verbatim>\<open>json.loads\<close> returns. A JSON
  object is a finite map from strings (Python compares dictionaries as maps, whatever
  their order). Numbers are kept by their value: Python compares and hashes \<^verbatim>\<open>int\<close>,
  \<^verbatim>\<open>float\<close> and \<^verbatim>\<open>bool\<close> by value (\<^verbatim>\<open>True == 1\<close>, \<^verbatim>\<open>1 == 1.0\<close>), and the program
  does not type-test them, so JSON \<^verbatim>\<open>true\<close> and \<^verbatim>\<open>false\<close> are the numbers 1 and 0.
  With this representation equality of values is Python's \<^verbatim>\<open>==\<close>. The non-finite floats
  that \<^verbatim>\<open>json.loads\<close> accepts as an extension are not represented. Strings are over the
  first 256 code points; all of them can be written to a UTF-8 file.
\<close>

datatype json =
    JNull
  | JNum rat
  | JString string
  | JList "json list"
  | JObject "(string, json) fmap"

datatype error = KeyError | TypeError | ValueError | IndexError | OtherError string

text \<open>Sequencing of computations that may raise: the first exception wins.\<close>

definition bind_res :: "error + 'a \<Rightarrow> ('a \<Rightarrow> error + 'b) \<Rightarrow> error + 'b" where
  "bind_res r f = (case r of Inl e \<Rightarrow> Inl e | Inr v \<Rightarrow> f v)"

text \<open>\<^verbatim>\<open>a or b\<close> on computations that may raise: \<open>b\<close> is evaluated only when \<open>a\<close> is false.\<close>

definition or_else :: "error + bool \<Rightarrow> error + bool \<Rightarrow> error + bool" where
  "or_else a b = bind_res a (\<lambda>x. if x then Inr True else b)"

text \<open>\<^verbatim>\<open>v[key]\<close> with a string key: only a dictionary can be subscripted by a string.\<close>

definition py_getitem :: "json \<Rightarrow> string \<Rightarrow> error + json" where
  "py_getitem v key =
     (case v of
        JObject m \<Rightarrow> (case fmlookup m key of None \<Rightarrow> Inl KeyError | Some x \<Rightarrow> Inr x)
      | _ \<Rightarrow> Inl TypeError)"

text \<open>\<^verbatim>\<open>q in v\<close> for a string \<open>q\<close>: substring of a string, element of a list, key of a
  dictionary; numbers and \<^verbatim>\<open>None\<close> are not containers.\<close>

definition py_contains :: "string \<Rightarrow> json \<Rightarrow> error + bool" where
  "py_contains q v =
     (case v of
        JString s \<Rightarrow> Inr (sublist q s)
      | JList xs \<Rightarrow> Inr (JString q \<in> set xs)
      | JObject m \<Rightarrow> Inr (q |\<in>| fmdom m)
      | _ \<Rightarrow> Inl TypeError)"

text \<open>\<^verbatim>\<open>len(v)\<close>.\<close>

definition py_len :: "json \<Rightarrow> error + nat" where
  "py_len v =
     (case v of
        JString s \<Rightarrow> Inr (length s)
      | JList xs \<Rightarrow> Inr (length xs)
      | JObject m \<Rightarrow> Inr (fcard (fmdom m))
      | _ \<Rightarrow> Inl TypeError)"

text \<open>\<^verbatim>\<open>v[0]\<close>: the first element of a list, the first character of a string; the keys
  of a JSON object are strings, so 0 is never one of them.\<close>

definition py_first :: "json \<Rightarrow> error + json" where
  "py_first v =
     (case v of
        JList xs \<Rightarrow> (case xs of [] \<Rightarrow> Inl IndexError | x # _ \<Rightarrow> Inr x)
      | JString s \<Rightarrow> (case s of [] \<Rightarrow> Inl IndexError | c # _ \<Rightarrow> Inr (JString [c]))
      | JObject m \<Rightarrow> Inl KeyError
      | _ \<Rightarrow> Inl TypeError)"

section \<open>The data model\<close>

text \<open>A record of the knowledge base, with the eight keys \<^verbatim>\<open>process_documents\<close> writes
  (\<open>doc_id\<close> is the key \<^verbatim>\<open>id\<close>, \<open>doc_keywords\<close> the key \<^verbatim>\<open>keywords\<close>).
  The category and the three extracted fields are whatever the generation replies
  parsed to.\<close>

record document =
  doc_id :: string
  filename :: string
  path :: string
  category :: json
  core_ideas :: json
  doc_keywords :: json
  related_docs :: json
  processed_time :: string

text \<open>The preference dictionary of a running program. \<^verbatim>\<open>preferred_level3\<close> is a Python
  dictionary whose keys are the level2 values that were registered, of any hashable
  kind; it is kept as the list of its items in insertion order, the order in which
  \<^verbatim>\<open>json.dump\<close> writes them.\<close>

record preferences =
  category_hierarchy :: "string list"
  preferred_level3 :: "(json \<times> json list) list"

text \<open>The same dictionary as a JSON file holds it, that is, as \<^verbatim>\<open>json.load\<close> reads it: the
  keys of a JSON object are strings, and in the dictionary that is read no key occurs
  twice.\<close>

record stored_preferences =
  stored_hierarchy :: "string list"
  stored_level3 :: "(string, json list) alist"

record knowledge_base =
  documents :: "document list"
  user_preferences :: stored_preferences

section \<open>search\_knowledge\<close>

text \<open>The loop over one iterable with \<^verbatim>\<open>break\<close> at the first element containing the
  query: elements before the hit are tested in order, and a test may raise.\<close>

fun first_hit :: "string \<Rightarrow> json list \<Rightarrow> error + bool" where
  "first_hit q [] = Inr False"
| "first_hit q (x # xs) =
     bind_res (py_contains q x) (\<lambda>b. if b then Inr True else first_hit q xs)"

text \<open>The same loop when nothing can be appended any more (\<^verbatim>\<open>skip\<close> is set): every
  element is still tested.\<close>

fun scan_all :: "string \<Rightarrow> json list \<Rightarrow> error + unit" where
  "scan_all q [] = Inr ()"
| "scan_all q (x # xs) = bind_res (py_contains q x) (\<lambda>_. scan_all q xs)"

text \<open>Iterating a value: a list yields its elements, a string its characters, a
  dictionary its keys (strings, so the test cannot raise and the order is immaterial).\<close>

definition iter_hit :: "string \<Rightarrow> json \<Rightarrow> error + bool" where
  "iter_hit q v =
     (case v of
        JList xs \<Rightarrow> first_hit q xs
      | JString s \<Rightarrow> first_hit q (map (\<lambda>c. JString [c]) s)
      | JObject m \<Rightarrow> Inr (fBex (fmdom m) (sublist q))
      | _ \<Rightarrow> Inl TypeError)"

definition iter_scan :: "string \<Rightarrow> json \<Rightarrow> error + unit" where
  "iter_scan q v =
     (case v of
        JList xs \<Rightarrow> scan_all q xs
      | JString s \<Rightarrow> Inr ()
      | JObject m \<Rightarrow> Inr ()
      | _ \<Rightarrow> Inl TypeError)"

definition category_match :: "string \<Rightarrow> document \<Rightarrow> error + bool" where
  "category_match q d =
     or_else (bind_res (py_getitem (category d) ''level1'') (py_contains q))
       (or_else (bind_res (py_getitem (category d) ''level2'') (py_contains q))
          (bind_res (py_getitem (category d) ''level3'') (py_contains q)))"

definition keyword_match :: "string \<Rightarrow> document \<Rightarrow> error + bool" where
  "keyword_match q d =
     bind_res (iter_hit q (core_ideas d))
       (\<lambda>skip. if skip then bind_res (iter_scan q (doc_keywords d)) (\<lambda>_. Inr True)
                else iter_hit q (doc_keywords d))"

definition related_match :: "string \<Rightarrow> document \<Rightarrow> error + bool" where
  "related_match q d = py_contains q (related_docs d)"

datatype loop_exit = Collected "document list" | UnsupportedType

text \<open>Lines 125 to 147: the query type is tested inside the loop, once per document.\<close>

fun search_loop :: "string \<Rightarrow> string \<Rightarrow> document list \<Rightarrow> document list \<Rightarrow> error + loop_exit" where
  "search_loop query_type query_value [] results = Inr (Collected results)"
| "search_loop query_type query_value (d # ds) results =
     (if query_type = ''category'' then
        bind_res (category_match query_value d)
          (\<lambda>b. search_loop query_type query_value ds (if b then results @ [d] else results))
      else if query_type = ''keyword'' then
        bind_res (keyword_match query_value d)
          (\<lambda>b. search_loop query_type query_value ds (if b then results @ [d] else results))
      else if query_type = ''related'' then
        bind_res (related_match query_value d)
          (\<lambda>b. search_loop query_type query_value ds (if b then results @ [d] else results))
      else Inr UnsupportedType)"

text \<open>What the function returns. The text of \<open>Found\<close> is built from the listed results
  alone; building it reads the three levels, \<^verbatim>\<open>core_ideas[0]\<close> and \<^verbatim>\<open>len(core_ideas)\<close>
  of every result, each of which may raise.\<close>

datatype search_result = KBMissing | Unsupported | NoResults | Found "document list"

definition format_doc :: "document \<Rightarrow> error + unit" where
  "format_doc d =
     bind_res (py_getitem (category d) ''level1'') (\<lambda>_.
     bind_res (py_getitem (category d) ''level2'') (\<lambda>_.
     bind_res (py_getitem (category d) ''level3'') (\<lambda>_.
     bind_res (py_first (core_ideas d)) (\<lambda>_.
     bind_res (py_len (core_ideas d)) (\<lambda>_. Inr ())))))"

fun format_all :: "document list \<Rightarrow> error + unit" where
  "format_all [] = Inr ()"
| "format_all (d # ds) = bind_res (format_doc d) (\<lambda>_. format_all ds)"

definition search_knowledge ::
  "knowledge_base option \<Rightarrow> string \<Rightarrow> string \<Rightarrow> error + search_result" where
  "search_knowledge kb_file query_type query_value =
     (case kb_file of
        None \<Rightarrow> Inr KBMissing
      | Some kb \<Rightarrow>
          bind_res (search_loop query_type query_value (documents kb) [])
            (\<lambda>x. case x of
                   UnsupportedType \<Rightarrow> Inr Unsupported
                 | Collected results \<Rightarrow>
                     if results = [] then Inr NoResults
                     else bind_res (format_all results) (\<lambda>_. Inr (Found results))))"

section \<open>The environment and the state\<close>

text \<open>
  What the program receives from outside is a parameter of the model: the parser of
  the \<^verbatim>\<open>json\<close> library (\<open>None\<close> is \<^verbatim>\<open>JSONDecodeError\<close>), the completion that the
  text-generation backend gives to the n-th call of \<^verbatim>\<open>generate_text\<close> (\<open>None\<close> when the
  call fails, the backend is the mock, or the reply carries no text), the n-th value of
  \<^verbatim>\<open>str(uuid.uuid4())\<close>, the n-th formatted reading of the clock, the text that
  \<^verbatim>\<open>json.dump\<close> writes for a dictionary key that is not a string (\<^verbatim>\<open>1\<close> for the integer
  1, \<^verbatim>\<open>null\<close> for \<^verbatim>\<open>None\<close>; of two equal keys such as 1 and \<^verbatim>\<open>True\<close> a dictionary keeps
  the first, so during a run every key has one text), and what the three format-specific readers of
  \<^verbatim>\<open>DocumentParserAgent\<close> get from the libraries: \<open>pdf_text\<close> is the value of the body of
  the \<^verbatim>\<open>try\<close> in \<^verbatim>\<open>_parse_pdf\<close> (\<open>None\<close> when anything in it raises), \<open>parse_docx\<close> and
  \<open>parse_txt\<close> return the cleaned text of the file at a path or raise. No reply depends
  on the prompt in the model, so every theorem about all environments covers every
  backend.
\<close>

record env =
  loads :: "string \<Rightarrow> json option"
  completion :: "nat \<Rightarrow> string option"
  uuid4 :: "nat \<Rightarrow> string"
  now :: "nat \<Rightarrow> string"
  dumps_key :: "json \<Rightarrow> string"
  pdf_text :: "string \<Rightarrow> string option"
  parse_docx :: "string \<Rightarrow> error + string"
  parse_txt :: "string \<Rightarrow> error + string"

record session =
  last_processed :: string
  total_processed :: int

text \<open>The content of \<^verbatim>\<open>memory.json\<close>.\<close>

record memory =
  memory_preferences :: stored_preferences
  session_status :: session

text \<open>What one call of the extractor returns.\<close>

record extraction =
  ex_core_ideas :: json
  ex_keywords :: json
  ex_related_docs :: json

text \<open>
  The preference dictionaries are mutable objects that several names may share, so they
  live in a store, addressed by references. The two JSON files are part of the state,
  \<open>None\<close> while a file does not exist; a file is kept as the value that \<^verbatim>\<open>json.load\<close>
  reads from it. The three counters say how many completions, uuids and clock readings
  have been consumed. \<open>extract_log\<close> is a history variable: the
  outcome of every call of the extractor, in order.
\<close>

record state =
  heap :: "nat \<Rightarrow> preferences"
  next_ref :: nat
  memory_json :: "memory option"
  knowledge_base_json :: "knowledge_base option"
  gen_calls :: nat
  uuid_calls :: nat
  clock_reads :: nat
  extract_log :: "(error + extraction) list"

definition generate_text :: "env \<Rightarrow> state \<Rightarrow> string option \<times> state" where
  "generate_text e st = (completion e (gen_calls st), st\<lparr>gen_calls := Suc (gen_calls st)\<rparr>)"

section \<open>MemoryManager\<close>

text \<open>A \<^verbatim>\<open>MemoryManager\<close> object: \<^verbatim>\<open>self.data\<close> holds a reference to the preference
  dictionary and the session status.\<close>

record memory_manager =
  prefs_ref :: nat
  session_data :: session

text \<open>\<^verbatim>\<open>json.load\<close> of a preference dictionary: the items in the order of the file, every
  key a string.\<close>

definition load_preferences :: "stored_preferences \<Rightarrow> preferences" where
  "load_preferences sp =
     \<lparr>category_hierarchy = stored_hierarchy sp,
      preferred_level3 = map (\<lambda>(s, seen). (JString s, seen)) (DAList.impl_of (stored_level3 sp))\<rparr>"

text \<open>\<^verbatim>\<open>json.dump\<close> of a preference dictionary, as it is read back. The items are written
  in the order of the dictionary, a key that is a string as it is and any other key as
  the text \<open>dumps_key\<close> gives. Two keys of the dictionary may be written as the same
  text; \<^verbatim>\<open>json.load\<close> then keeps the value written last, at the place of the first.\<close>

definition key_text :: "env \<Rightarrow> json \<Rightarrow> string" where
  "key_text e k = (case k of JString s \<Rightarrow> s | _ \<Rightarrow> dumps_key e k)"

definition dump_preferences :: "env \<Rightarrow> preferences \<Rightarrow> stored_preferences" where
  "dump_preferences e p =
     \<lparr>stored_hierarchy = category_hierarchy p,
      stored_level3 =
        fold (\<lambda>(k, seen). DAList.update (key_text e k) seen) (preferred_level3 p) DAList.empty\<rparr>"

text \<open>What \<^verbatim>\<open>_load_memory\<close> returns while \<^verbatim>\<open>memory.json\<close> does not exist.\<close>

definition default_memory :: memory where
  "default_memory =
     \<lparr>memory_preferences =
        \<lparr>stored_hierarchy = [''Technology'', ''Life'', ''Work'', ''Study''],
         stored_level3 = DAList.empty\<rparr>,
      session_status = \<lparr>last_processed = [], total_processed = 0\<rparr>\<rparr>"

definition load_memory :: "state \<Rightarrow> memory" where
  "load_memory st = (case memory_json st of Some m \<Rightarrow> m | None \<Rightarrow> default_memory)"

text \<open>The constructor: the loaded preference dictionary is a new object.\<close>

definition new_memory_manager :: "state \<Rightarrow> memory_manager \<times> state" where
  "new_memory_manager st =
     (let m = load_memory st; r = next_ref st
      in (\<lparr>prefs_ref = r, session_data = session_status m\<rparr>,
          st\<lparr>heap := fun_upd (heap st) r (load_preferences (memory_preferences m)),
             next_ref := Suc r\<rparr>))"

definition save_memory :: "env \<Rightarrow> memory_manager \<Rightarrow> state \<Rightarrow> state" where
  "save_memory e mm st =
     st\<lparr>memory_json :=
          Some \<lparr>memory_preferences = dump_preferences e (heap st (prefs_ref mm)),
                session_status = session_data mm\<rparr>\<rparr>"

text \<open>\<^verbatim>\<open>dict.update\<close> copies both top-level keys of \<open>new_prefs\<close> into the manager's
  dictionary. The program only ever passes the manager's own dictionary.\<close>

definition update_preferences :: "env \<Rightarrow> memory_manager \<Rightarrow> nat \<Rightarrow> state \<Rightarrow> state" where
  "update_preferences e mm new_prefs st =
     save_memory e mm (st\<lparr>heap := fun_upd (heap st) (prefs_ref mm) (heap st new_prefs)\<rparr>)"

definition update_session ::
  "env \<Rightarrow> memory_manager \<Rightarrow> string \<Rightarrow> state \<Rightarrow> memory_manager \<times> state" where
  "update_session e mm doc_name st =
     (let mm' = mm\<lparr>session_data :=
                     \<lparr>last_processed = doc_name,
                      total_processed = total_processed (session_data mm) + 1\<rparr>\<rparr>
      in (mm', save_memory e mm' st))"

section \<open>DocumentParserAgent\<close>

text \<open>\<^verbatim>\<open>os.path.splitext(p)[1]\<close>: the extension starts at the last dot of the last path
  component, unless only dots precede it there.\<close>

definition splitext_ext :: "string \<Rightarrow> string" where
  "splitext_ext p =
     (let base = rev (takeWhile (\<lambda>c. c \<noteq> CHR ''/'') (rev p));
          after = rev (takeWhile (\<lambda>c. c \<noteq> CHR ''.'') (rev base));
          stem = take (length base - length after - 1) base
      in if CHR ''.'' \<in> set base \<and> (\<exists>c\<in>set stem. c \<noteq> CHR ''.'') then CHR ''.'' # after
         else [])"

definition lower_char :: "char \<Rightarrow> char" where
  "lower_char c =
     (let n = (of_char c :: nat) in if 65 \<le> n \<and> n \<le> 90 then char_of (n + 32) else c)"

text \<open>\<^verbatim>\<open>_parse_pdf\<close> catches every exception of its body and returns the empty text.\<close>

definition parse_pdf :: "env \<Rightarrow> string \<Rightarrow> string" where
  "parse_pdf e file_path = (case pdf_text e file_path of None \<Rightarrow> [] | Some cleaned_text \<Rightarrow> cleaned_text)"

definition parse :: "env \<Rightarrow> string \<Rightarrow> error + string" where
  "parse e file_path =
     (let ext = map lower_char (splitext_ext file_path)
      in if ext = ''.pdf'' then Inr (parse_pdf e file_path)
         else if ext = ''.docx'' then parse_docx e file_path
         else if ext = ''.txt'' then parse_txt e file_path
         else Inl ValueError)"

section \<open>ContentClassifierAgent\<close>

definition sentinel_category :: json where
  "sentinel_category =
     JObject (fmap_of_list
       [(''level1'', JString ''Unclassified''),
        (''level2'', JString ''Unclassified''),
        (''level3'', JString ''Unclassified'')])"

text \<open>The characters \<^verbatim>\<open>str.strip()\<close> removes, among the first 256 code points.\<close>

definition is_space :: "char \<Rightarrow> bool" where
  "is_space c =
     (let n = (of_char c :: nat)
      in (9 \<le> n \<and> n \<le> 13) \<or> (28 \<le> n \<and> n \<le> 32) \<or> n = 133 \<or> n = 160)"

definition strip :: "string \<Rightarrow> string" where
  "strip s = rev (dropWhile is_space (rev (dropWhile is_space s)))"

text \<open>Lines 200 to 204.\<close>

definition clean_response :: "string \<Rightarrow> string" where
  "clean_response response_text =
     (let c0 = strip response_text;
          c1 = (if prefix ''```json'' c0 then drop 7 c0 else c0)
      in if suffix ''```'' c1 then strip (take (length c1 - 3) c1) else c1)"

text \<open>\<^verbatim>\<open>re.search(r'\{[^{}]*\}', s)\<close>: the leftmost opening brace that is closed before
  any other brace. \<open>brace_body\<close> reads the characters after an opening brace up to the
  closing one.\<close>

fun brace_body :: "string \<Rightarrow> string option" where
  "brace_body [] = None"
| "brace_body (c # cs) =
     (if c = CHR ''}'' then Some []
      else if c = CHR ''{'' then None
      else map_option (\<lambda>b. c # b) (brace_body cs))"

fun search_object :: "string \<Rightarrow> string option" where
  "search_object [] = None"
| "search_object (c # cs) =
     (if c = CHR ''{'' then
        (case brace_body cs of
           Some b \<Rightarrow> Some (CHR ''{'' # b @ ''}'')
         | None \<Rightarrow> search_object cs)
      else search_object cs)"

text \<open>Truth value of a JSON value (\<^verbatim>\<open>not v\<close> is its negation).\<close>

definition truthy :: "json \<Rightarrow> bool" where
  "truthy v =
     (case v of
        JNull \<Rightarrow> False
      | JNum r \<Rightarrow> r \<noteq> 0
      | JString s \<Rightarrow> s \<noteq> []
      | JList xs \<Rightarrow> xs \<noteq> []
      | JObject m \<Rightarrow> m \<noteq> fmempty)"

text \<open>Lines 208 to 211: \<^verbatim>\<open>if key not in category or not category[key]: raise ValueError\<close>,
  for each required key in turn.\<close>

fun check_required :: "json \<Rightarrow> string list \<Rightarrow> error + unit" where
  "check_required c [] = Inr ()"
| "check_required c (key # keys) =
     bind_res (py_contains key c) (\<lambda>present.
       if \<not> present then Inl ValueError
       else bind_res (py_getitem c key) (\<lambda>v.
         if \<not> truthy v then Inl ValueError else check_required c keys))"

text \<open>Lists and dictionaries cannot be dictionary keys.\<close>

definition hashable :: "json \<Rightarrow> bool" where
  "hashable v = (case v of JList xs \<Rightarrow> False | JObject m \<Rightarrow> False | _ \<Rightarrow> True)"

text \<open>Lines 213 to 216 on the preference dictionary: the test \<^verbatim>\<open>level2 not in ...\<close>
  hashes \<open>level2\<close> and raises before anything is changed. A new key goes to the end of
  the dictionary, the value of a key that is there is replaced where it is.\<close>

definition register_level3 :: "preferences \<Rightarrow> json \<Rightarrow> json \<Rightarrow> error + preferences" where
  "register_level3 prefs level2 level3 =
     (if \<not> hashable level2 then Inl TypeError
      else
        let p3 = preferred_level3 prefs;
            p3a = (if map_of p3 level2 = None then AList.update level2 [] p3 else p3);
            p3b = (case map_of p3a level2 of
                     None \<Rightarrow> p3a
                   | Some seen \<Rightarrow>
                       if level3 \<notin> set seen then AList.update level2 (seen @ [level3]) p3a
                       else p3a)
        in Inr (prefs\<lparr>preferred_level3 := p3b\<rparr>))"

text \<open>The body of the \<^verbatim>\<open>try\<close> after \<^verbatim>\<open>json.loads\<close> succeeded, up to the mutation of the
  preferences.\<close>

definition accept_category :: "preferences \<Rightarrow> json \<Rightarrow> error + preferences" where
  "accept_category prefs c =
     bind_res (check_required c [''level1'', ''level2'', ''level3'']) (\<lambda>_.
     bind_res (py_getitem c ''level2'') (\<lambda>level2.
     bind_res (py_getitem c ''level3'') (\<lambda>level3.
       register_level3 prefs level2 level3)))"

text \<open>\<^verbatim>\<open>classify\<close>. The text and the filename only enter the prompt. Every exception
  raised in the \<^verbatim>\<open>try\<close> is caught: \<^verbatim>\<open>JSONDecodeError\<close> leads to the regex fallback, any
  other to the sentinel.\<close>

definition classify ::
  "env \<Rightarrow> memory_manager \<Rightarrow> string \<Rightarrow> string \<Rightarrow> state \<Rightarrow> json \<times> state" where
  "classify e mm text fname st =
     (let (response_text, st1) = generate_text e st
      in (case response_text of
           None \<Rightarrow> (sentinel_category, st1)
         | Some r \<Rightarrow>
             if r = [] then (sentinel_category, st1)
             else
               let cleaned_response = clean_response r
               in (case loads e cleaned_response of
                    Some c \<Rightarrow>
                      (case accept_category (heap st1 (prefs_ref mm)) c of
                         Inl err \<Rightarrow> (sentinel_category, st1)
                       | Inr prefs' \<Rightarrow>
                           (c, update_preferences e mm (prefs_ref mm)
                                 (st1\<lparr>heap := fun_upd (heap st1) (prefs_ref mm) prefs'\<rparr>)))
                  | None \<Rightarrow>
                      (case search_object cleaned_response of
                         None \<Rightarrow> (sentinel_category, st1)
                       | Some json_match \<Rightarrow>
                           (case loads e json_match of
                              None \<Rightarrow> (sentinel_category, st1)
                            | Some c \<Rightarrow> (c, st1))))))"

section \<open>RelationExtractorAgent\<close>

definition sentinel_result :: json where
  "sentinel_result =
     JObject (fmap_of_list
       [(''core_ideas'', JList [JString ''No core ideas extracted'']),
        (''keywords'', JList [JString ''No keywords extracted''])])"

text \<open>\<^verbatim>\<open>','.join(v)\<close>: every element the iteration yields must be a string. A string
  yields its characters and a dictionary its keys.\<close>

definition py_join :: "json \<Rightarrow> error + unit" where
  "py_join v =
     (case v of
        JList xs \<Rightarrow>
          if list_all (\<lambda>x. case x of JString s \<Rightarrow> True | _ \<Rightarrow> False) xs then Inr ()
          else Inl TypeError
      | JString s \<Rightarrow> Inr ()
      | JObject m \<Rightarrow> Inr ()
      | _ \<Rightarrow> Inl TypeError)"

text \<open>The summaries of the processed documents (lines 259 to 262) join the keywords
  of each one.\<close>

fun doc_summaries :: "document list \<Rightarrow> error + unit" where
  "doc_summaries [] = Inr ()"
| "doc_summaries (d # ds) = bind_res (py_join (doc_keywords d)) (\<lambda>_. doc_summaries ds)"

text \<open>\<^verbatim>\<open>json.loads(response_text)\<close> under a bare \<^verbatim>\<open>except\<close>: no completion, or one that
  does not parse, gives the default.\<close>

definition loads_or :: "env \<Rightarrow> json \<Rightarrow> string option \<Rightarrow> json" where
  "loads_or e dflt response_text =
     (case response_text of
        None \<Rightarrow> dflt
      | Some r \<Rightarrow> (case loads e r of None \<Rightarrow> dflt | Some v \<Rightarrow> v))"

text \<open>Lines 276 to 280: the returned dictionary subscripts \<open>result\<close> twice.\<close>

definition build_extraction :: "json \<Rightarrow> json \<Rightarrow> error + extraction" where
  "build_extraction result related =
     bind_res (py_getitem result ''core_ideas'') (\<lambda>ci.
     bind_res (py_getitem result ''keywords'') (\<lambda>kw.
       Inr \<lparr>ex_core_ideas = ci, ex_keywords = kw, ex_related_docs = related\<rparr>))"

definition extract_body ::
  "env \<Rightarrow> string \<Rightarrow> document list \<Rightarrow> state \<Rightarrow> (error + extraction) \<times> state" where
  "extract_body e text all_docs st =
     (let (response_text, st1) = generate_text e st;
          result = loads_or e sentinel_result response_text
      in if all_docs \<noteq> [] then
           (case bind_res (doc_summaries all_docs) (\<lambda>_.
                   bind_res (py_getitem result ''keywords'') py_join) of
              Inl err \<Rightarrow> (Inl err, st1)
            | Inr _ \<Rightarrow>
                let (relation_response_text, st2) = generate_text e st1
                in (build_extraction result (loads_or e (JList []) relation_response_text), st2))
         else (build_extraction result (JList []), st1))"

text \<open>\<^verbatim>\<open>RelationExtractorAgent.extract\<close>, with its outcome appended to the history.\<close>

definition extractor_extract ::
  "env \<Rightarrow> string \<Rightarrow> document list \<Rightarrow> state \<Rightarrow> (error + extraction) \<times> state" where
  "extractor_extract e text all_docs st =
     (let (r, st1) = extract_body e text all_docs st
      in (r, st1\<lparr>extract_log := extract_log st1 @ [r]\<rparr>))"

section \<open>process\_documents\<close>

text \<open>Lines 65 to 67; \<^verbatim>\<open>or\<close> stops at the first level that is the sentinel.\<close>

definition is_category_invalid :: "json \<Rightarrow> error + bool" where
  "is_category_invalid c =
     or_else (bind_res (py_getitem c ''level1'') (\<lambda>v. Inr (v = JString ''Unclassified'')))
       (or_else (bind_res (py_getitem c ''level2'') (\<lambda>v. Inr (v = JString ''Unclassified'')))
          (bind_res (py_getitem c ''level3'') (\<lambda>v. Inr (v = JString ''Unclassified''))))"

text \<open>Lines 69 to 71: \<^verbatim>\<open>len(v) == 1 and literal in v[0]\<close>.\<close>

definition has_invalid :: "string \<Rightarrow> json \<Rightarrow> error + bool" where
  "has_invalid literal v =
     bind_res (py_len v) (\<lambda>n.
       if n = 1 then bind_res (py_first v) (py_contains literal) else Inr False)"

text \<open>Lines 63 to 73: the value of \<^verbatim>\<open>need_retry\<close> after one extraction.\<close>

definition need_retry_of :: "json \<Rightarrow> extraction \<Rightarrow> error + bool" where
  "need_retry_of c extracted =
     bind_res (py_len (ex_core_ideas extracted)) (\<lambda>_.
     bind_res (is_category_invalid c) (\<lambda>is_category_invalid.
     bind_res (has_invalid ''No core ideas extracted'' (ex_core_ideas extracted)) (\<lambda>has_invalid_core_ideas.
     bind_res (has_invalid ''No keywords extracted'' (ex_keywords extracted)) (\<lambda>has_invalid_keywords.
       Inr (is_category_invalid \<or> has_invalid_core_ideas \<or> has_invalid_keywords)))))"

definition max_retries :: nat where
  "max_retries = 3"

text \<open>The \<^verbatim>\<open>while\<close> loop of lines 56 to 85 on its three variables; \<open>extracted\<close> is
  unbound (\<open>None\<close>) until the first extraction.\<close>

function extraction_loop ::
  "env \<Rightarrow> json \<Rightarrow> string \<Rightarrow> document list \<Rightarrow> bool \<Rightarrow> nat \<Rightarrow> extraction option \<Rightarrow> state \<Rightarrow>
   (error + extraction option \<times> nat) \<times> state" where
  "extraction_loop e c text docs need_retry retry_count extracted st =
     (if need_retry \<and> retry_count < max_retries then
        (case extractor_extract e text docs st of
           (Inl err, st1) \<Rightarrow> (Inl err, st1)
         | (Inr x, st1) \<Rightarrow>
             (case need_retry_of c x of
                Inl err \<Rightarrow> (Inl err, st1)
              | Inr need_retry' \<Rightarrow>
                  extraction_loop e c text docs need_retry'
                    (if need_retry' then retry_count + 1 else retry_count) (Some x) st1))
      else (Inr (extracted, retry_count), st))"
  by pat_completeness auto
termination
  by (relation "measure (\<lambda>(e, c, text, docs, need_retry, retry_count, extracted, st).
                  if need_retry then Suc max_retries - retry_count else 0)")
     (auto simp: max_retries_def)

text \<open>\<^verbatim>\<open>os.path.join(input_dir, filename)\<close>.\<close>

definition path_join :: "string \<Rightarrow> string \<Rightarrow> string" where
  "path_join dir name = (if prefix ''/'' name then name else dir @ ''/'' @ name)"

text \<open>The knowledge base while \<^verbatim>\<open>process_documents\<close> runs: the list of documents and
  a reference to its preference dictionary.\<close>

record kb_object =
  kb_documents :: "document list"
  kb_preferences :: nat

text \<open>Lines 22 to 27: a loaded knowledge base has a preference dictionary of its own;
  a new one refers to the dictionary of the memory manager.\<close>

definition open_knowledge_base :: "memory_manager \<Rightarrow> state \<Rightarrow> kb_object \<times> state" where
  "open_knowledge_base mm st =
     (case knowledge_base_json st of
        Some kb \<Rightarrow>
          (\<lparr>kb_documents = documents kb, kb_preferences = next_ref st\<rparr>,
           st\<lparr>heap := fun_upd (heap st) (next_ref st) (load_preferences (user_preferences kb)),
              next_ref := Suc (next_ref st)\<rparr>)
      | None \<Rightarrow> (\<lparr>kb_documents = [], kb_preferences = prefs_ref mm\<rparr>, st))"

text \<open>Lines 107 and 108.\<close>

definition dump_knowledge_base :: "env \<Rightarrow> kb_object \<Rightarrow> state \<Rightarrow> state" where
  "dump_knowledge_base e kb st =
     st\<lparr>knowledge_base_json :=
          Some \<lparr>documents = kb_documents kb,
                user_preferences = dump_preferences e (heap st (kb_preferences kb))\<rparr>\<rparr>"

text \<open>Line 90 prints the three levels of the category.\<close>

definition print_classification :: "json \<Rightarrow> error + unit" where
  "print_classification c =
     bind_res (py_getitem c ''level1'') (\<lambda>_.
     bind_res (py_getitem c ''level2'') (\<lambda>_.
     bind_res (py_getitem c ''level3'') (\<lambda>_. Inr ())))"

text \<open>Lines 93 to 105: the new record and the update of the session.\<close>

definition append_document ::
  "env \<Rightarrow> memory_manager \<Rightarrow> kb_object \<Rightarrow> string \<Rightarrow> string \<Rightarrow> json \<Rightarrow> extraction \<Rightarrow> state \<Rightarrow>
   (memory_manager \<times> kb_object) \<times> state" where
  "append_document e mm kb fname file_path c extracted st =
     (let new_id = ''doc_'' @ take 8 (uuid4 e (uuid_calls st));
          st1 = st\<lparr>uuid_calls := Suc (uuid_calls st)\<rparr>;
          time = now e (clock_reads st1);
          st2 = st1\<lparr>clock_reads := Suc (clock_reads st1)\<rparr>;
          doc = \<lparr>doc_id = new_id, filename = fname, path = file_path, category = c,
                 core_ideas = ex_core_ideas extracted, doc_keywords = ex_keywords extracted,
                 related_docs = ex_related_docs extracted, processed_time = time\<rparr>;
          kb' = kb\<lparr>kb_documents := kb_documents kb @ [doc]\<rparr>;
          (mm', st3) = update_session e mm fname st2
      in ((mm', kb'), st3))"

text \<open>One iteration of the loop over the input files (lines 36 to 105). An exception
  that leaves the iteration leaves \<^verbatim>\<open>process_documents\<close>.\<close>

definition process_file ::
  "env \<Rightarrow> memory_manager \<Rightarrow> kb_object \<Rightarrow> string \<Rightarrow> state \<Rightarrow>
   (error + memory_manager \<times> kb_object) \<times> state" where
  "process_file e mm kb fname st =
     (if fname \<in> set (map filename (kb_documents kb)) then (Inr (mm, kb), st)
      else
        let file_path = path_join ''input_docs'' fname
        in (case parse e file_path of
              Inl err \<Rightarrow> (Inr (mm, kb), st)
            | Inr text \<Rightarrow>
               (let (c, st1) = classify e mm text fname st
                in (case extraction_loop e c text (kb_documents kb) True 0 None st1 of
                      (Inl err, st2) \<Rightarrow> (Inl err, st2)
                    | (Inr (extracted, retry_count), st2) \<Rightarrow>
                        (case print_classification c of
                           Inl err \<Rightarrow> (Inl err, st2)
                         | Inr _ \<Rightarrow>
                             (case extracted of
                                None \<Rightarrow> (Inl (OtherError ''UnboundLocalError''), st2)
                              | Some x \<Rightarrow>
                                  (case append_document e mm kb fname file_path c x st2 of
                                     (r, st3) \<Rightarrow> (Inr r, st3))))))))"

fun process_files ::
  "env \<Rightarrow> memory_manager \<Rightarrow> kb_object \<Rightarrow> string list \<Rightarrow> state \<Rightarrow>
   (error + memory_manager \<times> kb_object) \<times> state" where
  "process_files e mm kb [] st = (Inr (mm, kb), st)"
| "process_files e mm kb (fname # rest) st =
     (case process_file e mm kb fname st of
        (Inl err, st1) \<Rightarrow> (Inl err, st1)
      | (Inr (mm', kb'), st1) \<Rightarrow> process_files e mm' kb' rest st1)"

text \<open>\<^verbatim>\<open>process_documents\<close>; \<open>doc_files\<close> is the listing of the regular files of
  \<^verbatim>\<open>input_docs\<close>. The result also gives the two objects of the run.\<close>

definition process_documents ::
  "env \<Rightarrow> string list \<Rightarrow> state \<Rightarrow> (error + memory_manager \<times> kb_object) \<times> state" where
  "process_documents e doc_files st =
     (let (mm, st1) = new_memory_manager st;
          (kb, st2) = open_knowledge_base mm st1
      in if doc_files = [] then (Inr (mm, kb), st2)
         else
           (case process_files e mm kb doc_files st2 of
              (Inl err, st3) \<Rightarrow> (Inl err, st3)
            | (Inr (mm', kb'), st3) \<Rightarrow> (Inr (mm', kb'), dump_knowledge_base e kb' st3)))"

section \<open>reclassify\_document\<close>

fun find_index :: "string \<Rightarrow> document list \<Rightarrow> nat option" where
  "find_index fname [] = None"
| "find_index fname (d # ds) =
     (if filename d = fname then Some 0 else map_option Suc (find_index fname ds))"

datatype reclassify_result = NotFound | ParsingFailed error | Reclassified json

text \<open>The caller passes the knowledge base it has just loaded from the file; the
  function changes it in place and returns a pair. The model returns the outcome, the
  knowledge base after the call, and the state. The preference dictionary of that
  knowledge base was read from the file and is not touched: all its keys are strings
  and it is written back as it was read.\<close>

definition reclassify_document ::
  "env \<Rightarrow> string \<Rightarrow> knowledge_base \<Rightarrow> state \<Rightarrow> reclassify_result \<times> knowledge_base \<times> state" where
  "reclassify_document e fname kb st =
     (case find_index fname (documents kb) of
        None \<Rightarrow> (NotFound, kb, st)
      | Some doc_index \<Rightarrow>
          (case parse e (path (documents kb ! doc_index)) of
             Inl err \<Rightarrow> (ParsingFailed err, kb, st)
           | Inr text \<Rightarrow>
               let (mm, st1) = new_memory_manager st;
                   (new_category, st2) = classify e mm text fname st1;
                   time = now e (clock_reads st2);
                   st3 = st2\<lparr>clock_reads := Suc (clock_reads st2)\<rparr>;
                   doc = (documents kb ! doc_index)
                           \<lparr>category := new_category, processed_time := time\<rparr>;
                   kb' = kb\<lparr>documents := (documents kb)[doc_index := doc]\<rparr>
               in (Reclassified new_category, kb',
                   st3\<lparr>knowledge_base_json := Some kb'\<rparr>)))"

section \<open>Predicates used in the statements\<close>





text \<open>A string, as the data model has the three levels.\<close>

definition is_string :: "json \<Rightarrow> bool" where
  "is_string v = (case v of JString s \<Rightarrow> True | _ \<Rightarrow> False)"

text \<open>A preference dictionary all of whose level2 keys are strings (the keys of a
  Python dictionary are pairwise different).\<close>

definition string_keys :: "preferences \<Rightarrow> bool" where
  "string_keys p =
     (list_all (\<lambda>(k, seen). is_string k) (preferred_level3 p)
      \<and> distinct (map fst (preferred_level3 p)))"

text \<open>The level3 values seen under a level2 key, none when the key is absent: in the
  dictionary of a running program, and in a file.\<close>

definition level3_seen :: "preferences \<Rightarrow> json \<Rightarrow> json list" where
  "level3_seen prefs level2 =
     (case map_of (preferred_level3 prefs) level2 of None \<Rightarrow> [] | Some seen \<Rightarrow> seen)"

definition stored_seen :: "stored_preferences \<Rightarrow> string \<Rightarrow> json list" where
  "stored_seen sp level2 =
     (case DAList.lookup (stored_level3 sp) level2 of None \<Rightarrow> [] | Some seen \<Rightarrow> seen)"

section \<open>Concrete inputs\<close>

text \<open>The state before the first run: neither file exists.\<close>

definition initial_state :: state where
  "initial_state =
     \<lparr>heap = (\<lambda>_. load_preferences (memory_preferences default_memory)), next_ref = 0,
      memory_json = None,
      knowledge_base_json = None, gen_calls = 0, uuid_calls = 0, clock_reads = 0,
      extract_log = []\<rparr>"

text \<open>Environments over a parser that knows the JSON texts used below and rejects every
  other string; on these texts it agrees with \<^verbatim>\<open>json.loads\<close>.\<close>

definition example_loads :: "string \<Rightarrow> json option" where
  "example_loads =
     map_of
       [(''{}'', JObject fmempty),
        (''{\"level1\": \"Technology\", \"level2\": \"Programming\", \"level3\": \"Python\"}'',
         JObject (fmap_of_list
           [(''level1'', JString ''Technology''), (''level2'', JString ''Programming''),
            (''level3'', JString ''Python'')])),
        (''{\"core_ideas\": [\"python is fun\"], \"keywords\": [\"python\"]}'',
         JObject (fmap_of_list
           [(''core_ideas'', JList [JString ''python is fun'']),
            (''keywords'', JList [JString ''python''])])),
        (''{\"level1\": \"Technology\", \"level2\": \"Programming\", \"level3\": \"Java\"}'',
         JObject (fmap_of_list
           [(''level1'', JString ''Technology''), (''level2'', JString ''Programming''),
            (''level3'', JString ''Java'')])),
        (''{\"level1\": \"Technology\", \"level2\": 1, \"level3\": \"x\"}'',
         JObject (fmap_of_list
           [(''level1'', JString ''Technology''), (''level2'', JNum 1),
            (''level3'', JString ''x'')])),
        (''{\"level1\": \"Technology\", \"level2\": 1, \"level3\": \"y\"}'',
         JObject (fmap_of_list
           [(''level1'', JString ''Technology''), (''level2'', JNum 1),
            (''level3'', JString ''y'')]))]"

text \<open>The text of a key that is not a string: right for the integer 1 and for \<^verbatim>\<open>None\<close>,
  the only such keys used below.\<close>

definition example_dumps_key :: "json \<Rightarrow> string" where
  "example_dumps_key k = (if k = JNum 1 then ''1'' else ''null'')"

definition example_env :: "(nat \<Rightarrow> string option) \<Rightarrow> (nat \<Rightarrow> string) \<Rightarrow> env" where
  "example_env replies uuids =
     \<lparr>loads = example_loads, completion = replies, uuid4 = uuids,
      now = (\<lambda>n. ''2025-01-01 00:00:00''), dumps_key = example_dumps_key,
      pdf_text = (\<lambda>p. Some ''text''), parse_docx = (\<lambda>p. Inr ''text''),
      parse_txt = (\<lambda>p. Inr ''text'')\<rparr>"

definition example_doc :: "string \<Rightarrow> string \<Rightarrow> json \<Rightarrow> json \<Rightarrow> document" where
  "example_doc i name ideas kws =
     \<lparr>doc_id = i, filename = name, path = ''input_docs/'' @ name,
      category = JObject (fmap_of_list
        [(''level1'', JString ''Technology''), (''level2'', JString ''Programming''),
         (''level3'', JString ''Python'')]),
      core_ideas = ideas, doc_keywords = kws, related_docs = JList [],
      processed_time = ''2025-01-01 00:00:00''\<rparr>"

definition example_kb :: knowledge_base where
  "example_kb =
     \<lparr>documents =
        [example_doc ''doc_aaaaaaaa'' ''a.txt'' (JList [JString ''python is fun''])
           (JList [JString ''python'']),
         example_doc ''doc_bbbbbbbb'' ''b.txt'' (JList [JString ''cooking''])
           (JList [JString ''rice'']),
         example_doc ''doc_cccccccc'' ''notes.md'' (JList [JString ''travel''])
           (JList [JString ''maps''])],
      user_preferences = memory_preferences default_memory\<rparr>"

text \<open>The id given to the record when the n-th uuid is drawn (line 93).\<close>

definition drawn_id :: "env \<Rightarrow> nat \<Rightarrow> string" where
  "drawn_id e n = ''doc_'' @ take 8 (uuid4 e n)"

text \<open>The preferences in \<^verbatim>\<open>memory.json\<close> (the default ones while the file does not
  exist) are what \<^verbatim>\<open>json.dump\<close> writes for the manager's dictionary.\<close>

definition persisted_ok :: "env \<Rightarrow> memory_manager \<Rightarrow> state \<Rightarrow> bool" where
  "persisted_ok e mm st =
     (memory_preferences (load_memory st) = dump_preferences e (heap st (prefs_ref mm)))"

text \<open>The ids of the records in \<^verbatim>\<open>knowledge_base.json\<close>, none while the file does not
  exist.\<close>

definition stored_ids :: "state \<Rightarrow> string list" where
  "stored_ids st =
     (case knowledge_base_json st of None \<Rightarrow> [] | Some kb \<Rightarrow> map doc_id (documents kb))"


text \<open>Two completions: a classification and an extraction (both are texts that
  \<open>example_loads\<close> parses), and a backend that gives them to the classification and the
  extraction of two files in turn.\<close>

definition category_reply :: string where
  "category_reply =
     ''{\"level1\": \"Technology\", \"level2\": \"Programming\", \"level3\": \"Python\"}''"

definition extraction_reply :: string where
  "extraction_reply = ''{\"core_ideas\": [\"python is fun\"], \"keywords\": [\"python\"]}''"

definition example_replies :: "nat \<Rightarrow> string option" where
  "example_replies n =
     (if n = 0 \<or> n = 2 then Some category_reply
      else if n = 1 \<or> n = 3 then Some extraction_reply
      else None)"

text \<open>The state after a first run whose only input file has an unsupported format: the
  knowledge base is written with no document and the default preferences.\<close>

definition unsupported_only_state :: state where
  "unsupported_only_state =
     snd (process_documents (example_env example_replies (\<lambda>n. [])) [''notes.md''] initial_state)"

text \<open>An environment in which no PDF can be read and no text file can be opened, and a
  knowledge base with one record made from a PDF.\<close>

definition unreadable_env :: env where
  "unreadable_env =
     (example_env (\<lambda>n. None) (\<lambda>n. []))
       \<lparr>pdf_text := (\<lambda>p. None), parse_txt := (\<lambda>p. Inl (OtherError ''FileNotFoundError''))\<rparr>"

definition pdf_kb :: knowledge_base where
  "pdf_kb =
     \<lparr>documents =
        [example_doc ''doc_dddddddd'' ''r.pdf'' (JList [JString ''report''])
           (JList [JString ''sales''])],
      user_preferences = memory_preferences default_memory\<rparr>"

text \<open>A backend for three classifications in a row: Python, then Java, then Python again,
  all under Programming.\<close>

definition java_reply :: string where
  "java_reply =
     ''{\"level1\": \"Technology\", \"level2\": \"Programming\", \"level3\": \"Java\"}''"

definition registration_replies :: "nat \<Rightarrow> string option" where
  "registration_replies n =
     (if n = 0 \<or> n = 2 then Some category_reply
      else if n = 1 then Some java_reply
      else None)"

text \<open>A backend whose classifications have the number 1 as level2: level3 \<^verbatim>\<open>x\<close> for the
  first completion and \<^verbatim>\<open>y\<close> for the fifth; every other call gets no completion. The
  state after a first run over \<^verbatim>\<open>a.txt\<close> with this backend.\<close>

definition numeric_reply_x :: string where
  "numeric_reply_x = ''{\"level1\": \"Technology\", \"level2\": 1, \"level3\": \"x\"}''"

definition numeric_reply_y :: string where
  "numeric_reply_y = ''{\"level1\": \"Technology\", \"level2\": 1, \"level3\": \"y\"}''"

definition numeric_replies :: "nat \<Rightarrow> string option" where
  "numeric_replies n =
     (if n = 0 then Some numeric_reply_x
      else if n = 4 then Some numeric_reply_y
      else None)"

section \<open>Search: the query type\<close>

lemma search_loop_unsupported:
  "query_type \<noteq> ''category'' \<Longrightarrow> query_type \<noteq> ''keyword'' \<Longrightarrow> query_type \<noteq> ''related'' \<Longrightarrow>
   search_loop query_type query_value ds results =
     Inr (if ds = [] then Collected results else UnsupportedType)"
  by (cases ds) simp_all

text \<open>
  C4 (the code at the failing input). With a stored knowledge base whose documents
  list is empty the loop body, and with it the test of the query type, never runs: the
  query type \<^verbatim>\<open>tag\<close> is answered with the "no results" signal, not with "unsupported
  query type".
\<close>

theorem search_unsupported_type_empty_kb:
  "search_knowledge
     (Some \<lparr>documents = [],
            user_preferences = \<lparr>stored_hierarchy = [], stored_level3 = DAList.empty\<rparr>\<rparr>)
     ''tag'' ''x'' = Inr NoResults"
  by (simp add: search_knowledge_def bind_res_def)

section \<open>Evaluation of the model\<close>

lemmas classify_defs = classify_def generate_text_def clean_response_def strip_def is_space_def
  suffix_to_prefix accept_category_def register_level3_def update_preferences_def save_memory_def
  new_memory_manager_def load_memory_def default_memory_def bind_res_def py_contains_def
  py_getitem_def truthy_def hashable_def sentinel_category_def load_preferences_def
  dump_preferences_def key_text_def DAList.alist_eq_iff DAList.empty.rep_eq
  DAList.update.rep_eq DAList.lookup.rep_eq

lemmas run_defs = process_documents_def process_file_def open_knowledge_base_def
  dump_knowledge_base_def path_join_def parse_def parse_pdf_def splitext_ext_def lower_char_def
  extractor_extract_def extract_body_def loads_or_def build_extraction_def sentinel_result_def
  need_retry_of_def is_category_invalid_def has_invalid_def or_else_def py_len_def py_first_def
  py_join_def print_classification_def append_document_def update_session_def max_retries_def

lemmas example_defs = example_env_def example_loads_def example_dumps_key_def
  initial_state_def example_kb_def example_doc_def

section \<open>Classification: the shape of the result\<close>

text \<open>
  C3 (the code at the failing input). The completion \<^verbatim>\<open>Result: {}\<close> is not JSON, so
  \<^verbatim>\<open>json.loads\<close> raises \<^verbatim>\<open>JSONDecodeError\<close>; the regex fallback finds the fragment
  \<^verbatim>\<open>{}\<close>, which parses, and \<^verbatim>\<open>classify\<close> returns the parsed dictionary as it is, without
  the test of the required keys that the direct path applies. The result is the empty
  dictionary: it has no \<^verbatim>\<open>level1\<close> and it is not the sentinel.
\<close>

theorem classify_fallback_unvalidated:
  "fst (classify (example_env (\<lambda>n. Some ''Result: {}'') (\<lambda>n. []))
          (fst (new_memory_manager initial_state)) ''text'' ''a.txt''
          (snd (new_memory_manager initial_state))) = JObject fmempty
   \<and> py_getitem (JObject fmempty) ''level1'' = Inl KeyError
   \<and> JObject fmempty \<noteq> sentinel_category"
  by (simp add: classify_defs example_defs)

section \<open>Ingestion: failures scoped to one file\<close>

text \<open>
  C2 (the code at the failing input). Two unseen files, \<^verbatim>\<open>a.txt\<close> and \<^verbatim>\<open>b.txt\<close>. The
  classification of \<^verbatim>\<open>a.txt\<close> gets no completion (sentinel); its extraction gets the
  completion \<^verbatim>\<open>{}\<close>, valid JSON without the two keys. \<^verbatim>\<open>extract\<close> subscripts the parsed
  value outside any \<^verbatim>\<open>try\<close>, the \<^verbatim>\<open>KeyError\<close> leaves \<^verbatim>\<open>process_documents\<close>: \<^verbatim>\<open>b.txt\<close> is
  never processed (only the two generation calls of \<^verbatim>\<open>a.txt\<close> were made, no session was
  saved) and the knowledge base is not written.
\<close>

theorem incomplete_reply_aborts_batch:
  "fst (process_documents (example_env (\<lambda>n. if n = 1 then Some ''{}'' else None) (\<lambda>n. []))
          [''a.txt'', ''b.txt''] initial_state) = Inl KeyError
   \<and> knowledge_base_json
        (snd (process_documents (example_env (\<lambda>n. if n = 1 then Some ''{}'' else None) (\<lambda>n. []))
                [''a.txt'', ''b.txt''] initial_state)) = None
   \<and> memory_json
        (snd (process_documents (example_env (\<lambda>n. if n = 1 then Some ''{}'' else None) (\<lambda>n. []))
                [''a.txt'', ''b.txt''] initial_state)) = None
   \<and> gen_calls
        (snd (process_documents (example_env (\<lambda>n. if n = 1 then Some ''{}'' else None) (\<lambda>n. []))
                [''a.txt'', ''b.txt''] initial_state)) = 2"
  by (simp add: run_defs classify_defs example_defs)

section \<open>Search by keyword\<close>









section \<open>Reclassification\<close>

lemma find_index_None: "find_index fname ds = None \<longleftrightarrow> fname \<notin> set (map filename ds)"
  by (induction ds) auto

lemma find_index_Some:
  "find_index fname ds = Some i \<Longrightarrow>
   i < length ds \<and> filename (ds ! i) = fname \<and> (\<forall>j<i. filename (ds ! j) \<noteq> fname)"
proof (induction ds arbitrary: i)
  case Nil
  then show ?case by simp
next
  case (Cons d ds)
  show ?case
  proof (cases "filename d = fname")
    case True
    with Cons.prems show ?thesis by simp
  next
    case False
    with Cons.prems obtain k where k: "find_index fname ds = Some k" "i = Suc k"
      by auto
    from Cons.IH [OF k(1)] False k(2) show ?thesis
      by (auto simp: nth_Cons split: nat.splits)
  qed
qed

lemma parse_raises:
  "parse e p = Inl err \<longleftrightarrow>
     (let ext = map lower_char (splitext_ext p)
      in (ext = ''.docx'' \<and> parse_docx e p = Inl err)
         \<or> (ext = ''.txt'' \<and> parse_txt e p = Inl err)
         \<or> (ext \<noteq> ''.pdf'' \<and> ext \<noteq> ''.docx'' \<and> ext \<noteq> ''.txt'' \<and> err = ValueError))"
  by (auto simp: parse_def Let_def)

text \<open>
  C8 (the statement of the specification fails). The record was made from \<^verbatim>\<open>r.pdf\<close> and
  the file can no longer be read. \<^verbatim>\<open>_parse_pdf\<close> catches the exception and returns the
  empty text, so \<^verbatim>\<open>parse\<close> does not raise: the record is classified on the empty text,
  its category is overwritten (here by the sentinel, since there is no completion), the
  knowledge base is written and the call reports success.
\<close>

theorem reclassify_unreadable_pdf:
  "pdf_text unreadable_env (path (documents pdf_kb ! 0)) = None
   \<and> fst (reclassify_document unreadable_env ''r.pdf'' pdf_kb initial_state)
       = Reclassified sentinel_category
   \<and> py_getitem (category (documents pdf_kb ! 0)) ''level1'' = Inr (JString ''Technology'')
   \<and> py_getitem
        (category (documents (fst (snd (reclassify_document unreadable_env ''r.pdf'' pdf_kb
                                          initial_state))) ! 0)) ''level1''
       = Inr (JString ''Unclassified'')
   \<and> knowledge_base_json (snd (snd (reclassify_document unreadable_env ''r.pdf'' pdf_kb
                                       initial_state)))
       = Some (fst (snd (reclassify_document unreadable_env ''r.pdf'' pdf_kb initial_state)))"
  by (simp add: reclassify_document_def unreadable_env_def pdf_kb_def parse_def parse_pdf_def
      splitext_ext_def lower_char_def classify_defs example_defs Let_def)

text \<open>
  C8 (amended). When no record has the filename, \<^verbatim>\<open>reclassify_document\<close> reports "not
  found"; when \<^verbatim>\<open>parse\<close> raises on the stored path of the first record with that
  filename, it reports the parsing failure. In both cases the knowledge base it was
  given and the whole state (both files, the preference dictionaries and the counters)
  are as before: no record is changed and nothing is written. \<^verbatim>\<open>parse\<close> raises exactly
  when the path ends in \<^verbatim>\<open>.docx\<close> or \<^verbatim>\<open>.txt\<close> and the reader of that format raises, or
  when it ends in none of \<^verbatim>\<open>.pdf\<close>, \<^verbatim>\<open>.docx\<close> and \<^verbatim>\<open>.txt\<close>; it never raises on a \<^verbatim>\<open>.pdf\<close>
  path.
\<close>

theorem reclassify_failure_no_change:
  "(fname \<notin> set (map filename (documents kb)) \<longrightarrow>
      reclassify_document e fname kb st = (NotFound, kb, st))
   \<and> (\<forall>i err. find_index fname (documents kb) = Some i
        \<and> parse e (path (documents kb ! i)) = Inl err \<longrightarrow>
      reclassify_document e fname kb st = (ParsingFailed err, kb, st))
   \<and> (\<forall>p err. parse e p = Inl err \<longleftrightarrow>
        (let ext = map lower_char (splitext_ext p)
         in (ext = ''.docx'' \<and> parse_docx e p = Inl err)
            \<or> (ext = ''.txt'' \<and> parse_txt e p = Inl err)
            \<or> (ext \<noteq> ''.pdf'' \<and> ext \<noteq> ''.docx'' \<and> ext \<noteq> ''.txt'' \<and> err = ValueError)))"
proof -
  have "fname \<notin> set (map filename (documents kb)) \<Longrightarrow> find_index fname (documents kb) = None"
    using find_index_None by blast
  then have "(fname \<notin> set (map filename (documents kb)) \<longrightarrow>
      reclassify_document e fname kb st = (NotFound, kb, st))
   \<and> (\<forall>i err. find_index fname (documents kb) = Some i
        \<and> parse e (path (documents kb ! i)) = Inl err \<longrightarrow>
      reclassify_document e fname kb st = (ParsingFailed err, kb, st))"
    by (auto simp: reclassify_document_def)
  with parse_raises show ?thesis
    by blast
qed

theorem reclassify_failure_no_change_witness:
  "''missing.txt'' \<notin> set (map filename (documents example_kb))
   \<and> reclassify_document unreadable_env ''missing.txt'' example_kb initial_state
       = (NotFound, example_kb, initial_state)
   \<and> find_index ''notes.md'' (documents example_kb) = Some 2
   \<and> parse unreadable_env (path (documents example_kb ! 2)) = Inl ValueError
   \<and> reclassify_document unreadable_env ''notes.md'' example_kb initial_state
       = (ParsingFailed ValueError, example_kb, initial_state)
   \<and> find_index ''a.txt'' (documents example_kb) = Some 0
   \<and> parse unreadable_env (path (documents example_kb ! 0)) = Inl (OtherError ''FileNotFoundError'')
   \<and> reclassify_document unreadable_env ''a.txt'' example_kb initial_state
       = (ParsingFailed (OtherError ''FileNotFoundError''), example_kb, initial_state)"
proof -
  have a: "''missing.txt'' \<notin> set (map filename (documents example_kb))"
    by (simp add: example_defs)
  have b: "find_index ''notes.md'' (documents example_kb) = Some 2"
    "find_index ''a.txt'' (documents example_kb) = Some 0"
    by (simp_all add: example_defs)
  have c: "parse unreadable_env (path (documents example_kb ! 2)) = Inl ValueError"
    "parse unreadable_env (path (documents example_kb ! 0)) = Inl (OtherError ''FileNotFoundError'')"
    by (simp_all add: unreadable_env_def example_defs parse_def splitext_ext_def lower_char_def)
  from a b c
    reclassify_failure_no_change [of "''missing.txt''" example_kb unreadable_env initial_state]
    reclassify_failure_no_change [of "''notes.md''" example_kb unreadable_env initial_state]
    reclassify_failure_no_change [of "''a.txt''" example_kb unreadable_env initial_state]
  show ?thesis by blast
qed

lemma classify_frame:
  "classify e mm text fname st = (c, st') \<Longrightarrow>
   extract_log st' = extract_log st \<and> gen_calls st' = Suc (gen_calls st)
   \<and> uuid_calls st' = uuid_calls st \<and> clock_reads st' = clock_reads st
   \<and> knowledge_base_json st' = knowledge_base_json st \<and> next_ref st' = next_ref st"
  by (auto simp: classify_def generate_text_def update_preferences_def save_memory_def Let_def
      split: option.splits if_splits sum.splits)

text \<open>
  C9. When the filename is found at index \<open>i\<close> (the first record with that filename) and
  its path parses, the call succeeds with the new category; the documents list keeps its
  length, every record at another index is the same, and at index \<open>i\<close> the id, filename,
  path, core ideas, keywords and related documents are the same (the category is the new
  one). The preference snapshot of the knowledge base is the same, the knowledge base is
  written at once, the extractor is not called (its history is unchanged) and exactly
  one completion, the classifier's, is consumed.
\<close>

theorem reclassify_success_frame:
  assumes "find_index fname (documents kb) = Some i"
      and "parse e (path (documents kb ! i)) = Inr text"
      and "reclassify_document e fname kb st = (r, kb', st')"
  shows "i < length (documents kb) \<and> filename (documents kb ! i) = fname
       \<and> (\<forall>j<i. filename (documents kb ! j) \<noteq> fname)
       \<and> r = Reclassified (category (documents kb' ! i))
       \<and> length (documents kb') = length (documents kb)
       \<and> (\<forall>j. j \<noteq> i \<longrightarrow> documents kb' ! j = documents kb ! j)
       \<and> doc_id (documents kb' ! i) = doc_id (documents kb ! i)
       \<and> filename (documents kb' ! i) = filename (documents kb ! i)
       \<and> path (documents kb' ! i) = path (documents kb ! i)
       \<and> core_ideas (documents kb' ! i) = core_ideas (documents kb ! i)
       \<and> doc_keywords (documents kb' ! i) = doc_keywords (documents kb ! i)
       \<and> related_docs (documents kb' ! i) = related_docs (documents kb ! i)
       \<and> user_preferences kb' = user_preferences kb
       \<and> knowledge_base_json st' = Some kb'
       \<and> extract_log st' = extract_log st
       \<and> gen_calls st' = Suc (gen_calls st)"
proof -
  note fi = find_index_Some [OF assms(1)]
  obtain mm st1 where mm: "new_memory_manager st = (mm, st1)"
    by (cases "new_memory_manager st")
  obtain c st2 where cl: "classify e mm text fname st1 = (c, st2)"
    by (cases "classify e mm text fname st1")
  have st1: "extract_log st1 = extract_log st" "gen_calls st1 = gen_calls st"
    using mm by (auto simp: new_memory_manager_def Let_def)
  note fr = classify_frame [OF cl]
  from assms(3) have
    r: "r = Reclassified c" and
    kb': "kb' = kb\<lparr>documents := (documents kb)[i := (documents kb ! i)\<lparr>category := c,
                    processed_time := now e (clock_reads st2)\<rparr>]\<rparr>" and
    st': "st' = st2\<lparr>clock_reads := Suc (clock_reads st2), knowledge_base_json := Some kb'\<rparr>"
    by (auto simp: reclassify_document_def assms(1,2) mm cl Let_def)
  show ?thesis
    using fi fr st1 by (simp add: r kb' st')
qed


theorem reclassify_success_frame_witness:
  "find_index ''a.txt'' (documents example_kb) = Some 0
   \<and> parse (example_env (\<lambda>n. None) (\<lambda>n. [])) (path (documents example_kb ! 0)) = Inr ''text''
   \<and> fst (reclassify_document (example_env (\<lambda>n. None) (\<lambda>n. [])) ''a.txt'' example_kb initial_state)
       = Reclassified sentinel_category
   \<and> core_ideas (documents (fst (snd (reclassify_document (example_env (\<lambda>n. None) (\<lambda>n. []))
                                          ''a.txt'' example_kb initial_state))) ! 0)
       = JList [JString ''python is fun'']
   \<and> gen_calls (snd (snd (reclassify_document (example_env (\<lambda>n. None) (\<lambda>n. []))
                              ''a.txt'' example_kb initial_state))) = 1"
proof -
  let ?e = "example_env (\<lambda>n. None) (\<lambda>n. [])"
  let ?r = "reclassify_document ?e ''a.txt'' example_kb initial_state"
  have a: "find_index ''a.txt'' (documents example_kb) = Some 0"
    by (simp add: example_defs)
  have b: "parse ?e (path (documents example_kb ! 0)) = Inr ''text''"
    by (simp add: example_defs parse_def splitext_ext_def lower_char_def)
  have c: "?r = (fst ?r, fst (snd ?r), snd (snd ?r))"
    by simp
  have d: "fst ?r = Reclassified sentinel_category"
    by (simp only: reclassify_document_def a b option.case sum.case)
       (simp add: classify_defs example_defs Let_def)
  from reclassify_success_frame [OF a b c] a b d show ?thesis
    by (simp add: example_defs)
qed

section \<open>The extraction loop\<close>

lemmas reply_defs = category_reply_def extraction_reply_def example_replies_def java_reply_def
  registration_replies_def numeric_reply_x_def numeric_reply_y_def numeric_replies_def

declare extraction_loop.simps [simp del]

lemma extract_body_frame:
  "extract_body e text docs st = (r, st') \<Longrightarrow>
   extract_log st' = extract_log st \<and> uuid_calls st' = uuid_calls st
   \<and> clock_reads st' = clock_reads st \<and> heap st' = heap st \<and> next_ref st' = next_ref st
   \<and> memory_json st' = memory_json st \<and> knowledge_base_json st' = knowledge_base_json st"
  by (auto simp: extract_body_def generate_text_def Let_def split: if_splits sum.splits)

lemma extractor_extract_frame:
  "extractor_extract e text docs st = (r, st') \<Longrightarrow>
   extract_log st' = extract_log st @ [r] \<and> uuid_calls st' = uuid_calls st
   \<and> clock_reads st' = clock_reads st \<and> heap st' = heap st \<and> next_ref st' = next_ref st
   \<and> memory_json st' = memory_json st \<and> knowledge_base_json st' = knowledge_base_json st"
  by (auto simp: extractor_extract_def split: prod.splits dest: extract_body_frame)

lemma extraction_loop_log:
  "extraction_loop e c doc_text docs nr rc ex st = (r, st') \<Longrightarrow>
   \<exists>new. extract_log st' = extract_log st @ new
     \<and> (if nr \<and> rc < max_retries then 1 \<le> length new \<and> length new + rc \<le> max_retries
         else new = [])
     \<and> (new = [] \<longrightarrow> r = Inr (ex, rc))
     \<and> (new \<noteq> [] \<longrightarrow>
          (case r of
             Inr (x, k) \<Rightarrow>
               (\<exists>y. x = Some y \<and> last new = Inr y
                  \<and> (need_retry_of c y = Inr True \<longrightarrow> length new + rc = max_retries))
           | Inl err \<Rightarrow>
               last new = Inl err \<or> (\<exists>y. last new = Inr y \<and> need_retry_of c y = Inl err)))"
proof (induction e c doc_text docs nr rc "ex" st arbitrary: r st' rule: extraction_loop.induct)
  case (1 e c doc_text docs need_retry retry_count extracted st)
  show ?case
  proof (cases "need_retry \<and> retry_count < max_retries")
    case False
    with "1.prems" show ?thesis
      by (auto simp: extraction_loop.simps)
  next
    case True
    obtain r1 st1 where ex: "extractor_extract e doc_text docs st = (r1, st1)"
      by (cases "extractor_extract e doc_text docs st")
    note fr = extractor_extract_frame [OF ex]
    show ?thesis
    proof (cases r1)
      case (Inl err)
      with "1.prems" True ex have "r = Inl err" "st' = st1"
        by (auto simp: extraction_loop.simps)
      with fr Inl True show ?thesis
        by (intro exI [of _ "[r1]"]) (auto simp: max_retries_def)
    next
      case (Inr x)
      show ?thesis
      proof (cases "need_retry_of c x")
        case (Inl err)
        with "1.prems" True ex Inr have "r = Inl err" "st' = st1"
          by (auto simp: extraction_loop.simps)
        with fr Inl Inr True show ?thesis
          by (intro exI [of _ "[r1]"]) (auto simp: max_retries_def)
      next
        case nr: (Inr need_retry')
        let ?rc = "if need_retry' then retry_count + 1 else retry_count"
        from "1.prems" True ex Inr nr
        have rec: "extraction_loop e c doc_text docs need_retry' ?rc (Some x) st1 = (r, st')"
          by (simp add: extraction_loop.simps)
        from "1.IH" [OF True ex [symmetric] Inr nr rec]
        obtain new where new:
          "extract_log st' = extract_log st1 @ new"
          "if need_retry' \<and> ?rc < max_retries then 1 \<le> length new \<and> length new + ?rc \<le> max_retries
           else new = []"
          "new = [] \<longrightarrow> r = Inr (Some x, ?rc)"
          "new \<noteq> [] \<longrightarrow>
            (case r of
               Inr (x, k) \<Rightarrow>
                 (\<exists>y. x = Some y \<and> last new = Inr y
                    \<and> (need_retry_of c y = Inr True \<longrightarrow> length new + ?rc = max_retries))
             | Inl err \<Rightarrow>
                 last new = Inl err \<or> (\<exists>y. last new = Inr y \<and> need_retry_of c y = Inl err))"
          by blast
        show ?thesis
        proof (intro exI [of _ "r1 # new"] conjI)
          show "extract_log st' = extract_log st @ r1 # new"
            using new(1) fr by simp
          show "if need_retry \<and> retry_count < max_retries
                then 1 \<le> length (r1 # new) \<and> length (r1 # new) + retry_count \<le> max_retries
                else r1 # new = []"
            using True new(2) by (auto split: if_splits)
          show "r1 # new = [] \<longrightarrow> r = Inr (extracted, retry_count)"
            by simp
          show "r1 # new \<noteq> [] \<longrightarrow>
            (case r of
               Inr (x, k) \<Rightarrow>
                 (\<exists>y. x = Some y \<and> last (r1 # new) = Inr y
                    \<and> (need_retry_of c y = Inr True \<longrightarrow> length (r1 # new) + retry_count = max_retries))
             | Inl err \<Rightarrow>
                 last (r1 # new) = Inl err
                 \<or> (\<exists>y. last (r1 # new) = Inr y \<and> need_retry_of c y = Inl err))"
          proof (cases "new = []")
            case True
            with new(3) new(2) nr Inr \<open>need_retry \<and> retry_count < max_retries\<close> show ?thesis
              by (auto split: if_splits)
          next
            case False
            with new(4) new(2) show ?thesis
              by (auto split: sum.splits prod.splits if_splits)
          qed
        qed
      qed
    qed
  qed
qed

text \<open>
  The bound of the loop. It starts with \<open>need_retry = True\<close> and \<open>retry_count = 0\<close>.
  Whatever the classifier and the extractor return, it ends, and by then the extractor
  has been called at least once and at most 3 times (\<open>new\<close> is what the run adds to the
  history of the extractor's calls). When the loop ends normally, the extraction it
  leaves is the result of the last call, also when that result still asks for a retry,
  which happens only after the third call. The loop is left by an exception only when
  the last call raised it or the validity test of its result did.
\<close>

theorem extraction_attempts_bounded:
  assumes "extraction_loop e c doc_text docs True 0 None st = (r, st')"
  shows "\<exists>new. extract_log st' = extract_log st @ new \<and> 1 \<le> length new \<and> length new \<le> 3
     \<and> (case r of
          Inr (x, k) \<Rightarrow>
            (\<exists>y. x = Some y \<and> last new = Inr y
               \<and> (need_retry_of c y = Inr True \<longrightarrow> length new = 3))
        | Inl err \<Rightarrow>
            last new = Inl err \<or> (\<exists>y. last new = Inr y \<and> need_retry_of c y = Inl err))"
proof -
  from extraction_loop_log [OF assms] obtain new where
    n: "extract_log st' = extract_log st @ new"
       "1 \<le> length new \<and> length new + 0 \<le> max_retries"
       "new \<noteq> [] \<longrightarrow>
          (case r of
             Inr (x, k) \<Rightarrow>
               (\<exists>y. x = Some y \<and> last new = Inr y
                  \<and> (need_retry_of c y = Inr True \<longrightarrow> length new + 0 = max_retries))
           | Inl err \<Rightarrow>
               last new = Inl err \<or> (\<exists>y. last new = Inr y \<and> need_retry_of c y = Inl err))"
    by (auto simp: max_retries_def)
  from n(2) have ne: "new \<noteq> []" by auto
  from n(3) ne have "case r of
             Inr (x, k) \<Rightarrow>
               (\<exists>y. x = Some y \<and> last new = Inr y
                  \<and> (need_retry_of c y = Inr True \<longrightarrow> length new = 3))
           | Inl err \<Rightarrow>
               last new = Inl err \<or> (\<exists>y. last new = Inr y \<and> need_retry_of c y = Inl err)"
    by (auto simp: max_retries_def split: sum.splits prod.splits)
  with n(1,2) show ?thesis
    by (intro exI [of _ new]) (simp add: max_retries_def)
qed

theorem extraction_attempts_bounded_witness:
  "fst (extraction_loop (example_env (\<lambda>n. None) (\<lambda>n. [])) sentinel_category ''text'' [] True 0 None
          initial_state)
     = Inr (Some \<lparr>ex_core_ideas = JList [JString ''No core ideas extracted''],
                  ex_keywords = JList [JString ''No keywords extracted''],
                  ex_related_docs = JList []\<rparr>, 3)
   \<and> length (extract_log (snd (extraction_loop (example_env (\<lambda>n. None) (\<lambda>n. [])) sentinel_category
                                  ''text'' [] True 0 None initial_state))) = 3
   \<and> need_retry_of sentinel_category
        \<lparr>ex_core_ideas = JList [JString ''No core ideas extracted''],
         ex_keywords = JList [JString ''No keywords extracted''],
         ex_related_docs = JList []\<rparr> = Inr True"
proof -
  let ?run = "extraction_loop (example_env (\<lambda>n. None) (\<lambda>n. [])) sentinel_category ''text'' [] True 0
                None initial_state"
  have ev: "fst ?run
     = Inr (Some \<lparr>ex_core_ideas = JList [JString ''No core ideas extracted''],
                  ex_keywords = JList [JString ''No keywords extracted''],
                  ex_related_docs = JList []\<rparr>, 3)"
    "extract_log initial_state = []"
    "need_retry_of sentinel_category
        \<lparr>ex_core_ideas = JList [JString ''No core ideas extracted''],
         ex_keywords = JList [JString ''No keywords extracted''],
         ex_related_docs = JList []\<rparr> = Inr True"
    by (simp_all add: extraction_loop.simps run_defs classify_defs example_defs sublist_code)
  from extraction_attempts_bounded [OF surjective_pairing, of "example_env (\<lambda>n. None) (\<lambda>n. [])"
      sentinel_category "''text''" "[]" initial_state] ev
  show ?thesis by auto
qed

text \<open>
  C6 (the code at the failing input). A document reaches the extraction stage and the
  extraction call gets the completion \<^verbatim>\<open>{}\<close>. The extractor is called once, the
  \<^verbatim>\<open>KeyError\<close> of \<^verbatim>\<open>result["core_ideas"]\<close> leaves the loop, and no result is accepted:
  the loop does not end by accepting the last result.
\<close>

theorem extraction_loop_raises:
  "fst (extraction_loop (example_env (\<lambda>n. Some ''{}'') (\<lambda>n. [])) sentinel_category ''text'' []
          True 0 None initial_state) = Inl KeyError
   \<and> extract_log (snd (extraction_loop (example_env (\<lambda>n. Some ''{}'') (\<lambda>n. []))
                          sentinel_category ''text'' [] True 0 None initial_state))
       = [Inl KeyError]"
  by (simp add: extraction_loop.simps run_defs classify_defs example_defs)

section \<open>Writing and reading the preference dictionary\<close>

lemma update_fresh: "k \<notin> fst ` set al \<Longrightarrow> AList.update k v al = al @ [(k, v)]"
  by (induction al) auto

lemma fold_update_fresh:
  "distinct (map fst acc @ map (\<lambda>(k, v). h k) ys) \<Longrightarrow>
   fold (\<lambda>(k, v). AList.update (h k) v) ys acc = acc @ map (\<lambda>(k, v). (h k, v)) ys"
proof (induction ys arbitrary: acc)
  case Nil
  then show ?case by simp
next
  case (Cons y ys)
  obtain k v where y: "y = (k, v)" by (cases y)
  from Cons.prems have fresh: "h k \<notin> fst ` set acc"
    by (auto simp: y)
  from Cons.prems have "distinct (map fst (acc @ [(h k, v)]) @ map (\<lambda>(k, v). h k) ys)"
    by (auto simp: y)
  from Cons.IH [OF this] show ?case
    by (simp add: y update_fresh [OF fresh])
qed

lemma impl_of_fold_update:
  "DAList.impl_of (fold (\<lambda>(k, v). DAList.update (h k) v) xs acc)
   = fold (\<lambda>(k, v). AList.update (h k) v) xs (DAList.impl_of acc)"
  by (induction xs arbitrary: acc) (auto simp: DAList.update.rep_eq)

lemma dump_load: "dump_preferences e (load_preferences sp) = sp"
proof -
  let ?xs = "DAList.impl_of (stored_level3 sp)"
  let ?ys = "map (\<lambda>(s, seen). (JString s, seen)) ?xs"
  have m: "map (\<lambda>(k, v). (key_text e k, v)) ?ys = ?xs"
    by (simp add: key_text_def case_prod_unfold comp_def)
  have eq: "map (\<lambda>(k, v). key_text e k) ?ys = map fst ?xs"
    by (simp add: key_text_def case_prod_unfold comp_def)
  have d: "distinct (map fst ([] :: (string \<times> json list) list)
             @ map (\<lambda>(k, v). key_text e k) ?ys)"
    unfolding eq using DAList.impl_of_distinct [of "stored_level3 sp"]
    by (simp only: list.map(1) append_Nil)
  have f: "fold (\<lambda>(k, v). AList.update (key_text e k) v) ?ys [] = ?xs"
    using fold_update_fresh [OF d] m by simp
  have "DAList.impl_of (fold (\<lambda>(k, seen). DAList.update (key_text e k) seen) ?ys DAList.empty)
        = ?xs"
    by (simp only: impl_of_fold_update DAList.empty.rep_eq f)
  then have "fold (\<lambda>(k, seen). DAList.update (key_text e k) seen) ?ys DAList.empty
             = stored_level3 sp"
    by (simp add: DAList.alist_eq_iff)
  then show ?thesis
    by (simp add: dump_preferences_def load_preferences_def)
qed

lemma load_string_keys: "string_keys (load_preferences sp)"
  using DAList.impl_of_distinct [of "stored_level3 sp"]
  by (auto simp: string_keys_def load_preferences_def list_all_iff is_string_def comp_def
      case_prod_unfold distinct_map inj_on_def)

lemma map_of_JString: "map_of (map (\<lambda>(s, seen). (JString s, seen)) xs) (JString s) = map_of xs s"
  by (induction xs) auto

lemma seen_load: "level3_seen (load_preferences sp) (JString s) = stored_seen sp s"
  by (simp add: level3_seen_def stored_seen_def load_preferences_def map_of_JString
      DAList.lookup.rep_eq)

lemma map_of_key_text:
  "list_all (\<lambda>(k, seen). is_string k) xs \<Longrightarrow>
   map_of (map (\<lambda>(k, v). (key_text e k, v)) xs) s = map_of xs (JString s)"
  by (induction xs) (auto simp: is_string_def key_text_def split: json.splits)

lemma seen_dump:
  assumes "string_keys p"
  shows "stored_seen (dump_preferences e p) s = level3_seen p (JString s)"
proof -
  let ?xs = "preferred_level3 p"
  from assms have all: "list_all (\<lambda>(k, seen). is_string k) ?xs" and dist: "distinct (map fst ?xs)"
    by (simp_all add: string_keys_def)
  have inj: "inj_on (key_text e) (fst ` set ?xs)"
    using all by (auto simp: inj_on_def list_all_iff is_string_def key_text_def split: json.splits)
  have dk: "distinct (map (key_text e) (map fst ?xs))"
    by (subst distinct_map) (use dist inj in simp)
  have eq: "map (\<lambda>(k, v). key_text e k) ?xs = map (key_text e) (map fst ?xs)"
    by (simp add: case_prod_unfold comp_def)
  have d: "distinct (map fst ([] :: (string \<times> json list) list)
             @ map (\<lambda>(k, v). key_text e k) ?xs)"
    unfolding eq using dk by (simp only: list.map(1) append_Nil)
  have f: "fold (\<lambda>(k, v). AList.update (key_text e k) v) ?xs []
           = map (\<lambda>(k, v). (key_text e k, v)) ?xs"
    using fold_update_fresh [OF d] by simp
  have "DAList.impl_of (stored_level3 (dump_preferences e p))
        = map (\<lambda>(k, v). (key_text e k, v)) ?xs"
    by (simp only: dump_preferences_def stored_preferences.simps impl_of_fold_update
        DAList.empty.rep_eq f)
  then show ?thesis
    by (simp add: stored_seen_def level3_seen_def DAList.lookup.rep_eq map_of_key_text [OF all])
qed

lemma register_level3_effect:
  "register_level3 p l2 l3 = Inr p' \<Longrightarrow>
   category_hierarchy p' = category_hierarchy p
   \<and> (\<forall>k. k \<noteq> l2 \<longrightarrow> level3_seen p' k = level3_seen p k)
   \<and> level3_seen p' l2 =
       (if l3 \<in> set (level3_seen p l2) then level3_seen p l2 else level3_seen p l2 @ [l3])"
  by (auto simp: register_level3_def level3_seen_def Let_def update_conv'
      split: if_splits option.splits)


lemma update_string_keys:
  "list_all (\<lambda>(k, seen). is_string k) xs \<Longrightarrow> is_string k \<Longrightarrow>
   list_all (\<lambda>(k, seen). is_string k) (AList.update k v xs)"
  by (induction xs) auto

lemma register_string_keys:
  "register_level3 p l2 l3 = Inr p' \<Longrightarrow> is_string l2 \<Longrightarrow> string_keys p \<Longrightarrow> string_keys p'"
  by (auto simp: register_level3_def string_keys_def Let_def update_string_keys distinct_update
      split: if_splits option.splits)

section \<open>Effect of a run on the preferences and on the knowledge base\<close>

lemma accept_category_effect:
  "accept_category p c = Inr p' \<Longrightarrow>
   \<exists>l2 l3. py_getitem c ''level2'' = Inr l2 \<and> py_getitem c ''level3'' = Inr l3
     \<and> register_level3 p l2 l3 = Inr p'"
  by (auto simp: accept_category_def bind_res_def split: sum.splits)

lemma classify_effect:
  assumes "classify e mm doc_text fname st = (c, st')"
  shows "next_ref st' = next_ref st \<and> knowledge_base_json st' = knowledge_base_json st
     \<and> uuid_calls st' = uuid_calls st \<and> clock_reads st' = clock_reads st
     \<and> extract_log st' = extract_log st \<and> gen_calls st' = Suc (gen_calls st)
     \<and> (\<forall>a. a \<noteq> prefs_ref mm \<longrightarrow> heap st' a = heap st a)
     \<and> (persisted_ok e mm st \<longrightarrow> persisted_ok e mm st')
     \<and> (\<forall>k. level3_seen (heap st' (prefs_ref mm)) k = level3_seen (heap st (prefs_ref mm)) k
            \<or> (\<exists>l3. l3 \<notin> set (level3_seen (heap st (prefs_ref mm)) k)
                 \<and> py_getitem c ''level2'' = Inr k \<and> py_getitem c ''level3'' = Inr l3
                 \<and> level3_seen (heap st' (prefs_ref mm)) k
                     = level3_seen (heap st (prefs_ref mm)) k @ [l3]))
     \<and> (heap st' (prefs_ref mm) = heap st (prefs_ref mm)
          \<or> (\<exists>r l2 l3. completion e (gen_calls st) = Some r \<and> loads e (clean_response r) = Some c
                \<and> py_getitem c ''level2'' = Inr l2
                \<and> register_level3 (heap st (prefs_ref mm)) l2 l3 = Inr (heap st' (prefs_ref mm))))"
proof -
  let ?st1 = "st\<lparr>gen_calls := Suc (gen_calls st)\<rparr>"
  have same: "st' = ?st1 \<Longrightarrow> ?thesis"
    by (simp add: persisted_ok_def load_memory_def)
  show ?thesis
  proof (cases "\<exists>r cat p'. completion e (gen_calls st) = Some r \<and> r \<noteq> []
                  \<and> loads e (clean_response r) = Some cat
                  \<and> accept_category (heap st (prefs_ref mm)) cat = Inr p'")
    case False
    with assms have "st' = ?st1"
      by (auto simp: classify_def generate_text_def Let_def
          split: option.splits if_splits sum.splits)
    then show ?thesis by (rule same)
  next
    case True
    then obtain r cat p' where r: "completion e (gen_calls st) = Some r" "r \<noteq> []"
      "loads e (clean_response r) = Some cat"
      "accept_category (heap st (prefs_ref mm)) cat = Inr p'"
      by blast
    with assms have c: "c = cat"
      and st': "st' = update_preferences e mm (prefs_ref mm)
                 (?st1\<lparr>heap := fun_upd (heap ?st1) (prefs_ref mm) p'\<rparr>)"
      by (auto simp: classify_def generate_text_def Let_def)
    from accept_category_effect [OF r(4)] obtain l2 l3 where
      l: "py_getitem cat ''level2'' = Inr l2" "py_getitem cat ''level3'' = Inr l3"
         "register_level3 (heap st (prefs_ref mm)) l2 l3 = Inr p'"
      by blast
    note reg = register_level3_effect [OF l(3)]
    have h: "heap st' (prefs_ref mm) = p'"
      "memory_preferences (load_memory st') = dump_preferences e p'"
      by (simp_all add: st' update_preferences_def save_memory_def load_memory_def)
    have frame: "next_ref st' = next_ref st" "knowledge_base_json st' = knowledge_base_json st"
      "uuid_calls st' = uuid_calls st" "clock_reads st' = clock_reads st"
      "extract_log st' = extract_log st" "gen_calls st' = Suc (gen_calls st)"
      "\<forall>a. a \<noteq> prefs_ref mm \<longrightarrow> heap st' a = heap st a"
      by (simp_all add: st' update_preferences_def save_memory_def)
    have grow: "level3_seen p' k = level3_seen (heap st (prefs_ref mm)) k
            \<or> (\<exists>l3. l3 \<notin> set (level3_seen (heap st (prefs_ref mm)) k)
                 \<and> py_getitem c ''level2'' = Inr k \<and> py_getitem c ''level3'' = Inr l3
                 \<and> level3_seen p' k = level3_seen (heap st (prefs_ref mm)) k @ [l3])" for k
      using reg l(1,2) c by (cases "k = l2") auto
    have how: "\<exists>r l2 l3. completion e (gen_calls st) = Some r \<and> loads e (clean_response r) = Some c
                \<and> py_getitem c ''level2'' = Inr l2
                \<and> register_level3 (heap st (prefs_ref mm)) l2 l3 = Inr p'"
      using r(1,3) l(1,3) c by blast
    show ?thesis
      using frame grow h how by (simp add: persisted_ok_def)
  qed
qed


lemma classify_string_keys:
  assumes "classify e mm doc_text fname st = (c, st')"
      and "\<forall>n r c k. completion e n = Some r \<longrightarrow> loads e (clean_response r) = Some c \<longrightarrow>
             py_getitem c ''level2'' = Inr k \<longrightarrow> is_string k"
      and "string_keys (heap st (prefs_ref mm))"
  shows "string_keys (heap st' (prefs_ref mm))"
proof -
  from classify_effect [OF assms(1)]
  consider "heap st' (prefs_ref mm) = heap st (prefs_ref mm)"
    | r l2 l3 where "completion e (gen_calls st) = Some r" "loads e (clean_response r) = Some c"
        "py_getitem c ''level2'' = Inr l2"
        "register_level3 (heap st (prefs_ref mm)) l2 l3 = Inr (heap st' (prefs_ref mm))"
    by blast
  then show ?thesis
  proof cases
    case 1
    with assms(3) show ?thesis by simp
  next
    case 2
    from assms(2) 2(1-3) have "is_string l2" by blast
    from register_string_keys [OF 2(4) this assms(3)] show ?thesis .
  qed
qed

lemma extraction_loop_frame:
  "extraction_loop e c doc_text docs nr rc x st = (r, st') \<Longrightarrow>
   uuid_calls st' = uuid_calls st \<and> clock_reads st' = clock_reads st \<and> heap st' = heap st
   \<and> next_ref st' = next_ref st \<and> memory_json st' = memory_json st
   \<and> knowledge_base_json st' = knowledge_base_json st"
proof (induction e c doc_text docs nr rc x st arbitrary: r st' rule: extraction_loop.induct)
  case (1 e c doc_text docs need_retry retry_count extracted st)
  show ?case
  proof (cases "need_retry \<and> retry_count < max_retries")
    case False
    with "1.prems" show ?thesis by (auto simp: extraction_loop.simps)
  next
    case True
    obtain r1 st1 where ex: "extractor_extract e doc_text docs st = (r1, st1)"
      by (cases "extractor_extract e doc_text docs st")
    note fr = extractor_extract_frame [OF ex]
    show ?thesis
    proof (cases r1)
      case (Inl err)
      with "1.prems" True ex have "st' = st1" by (auto simp: extraction_loop.simps)
      with fr show ?thesis by simp
    next
      case (Inr y)
      show ?thesis
      proof (cases "need_retry_of c y")
        case (Inl err)
        with "1.prems" True ex Inr have "st' = st1" by (auto simp: extraction_loop.simps)
        with fr show ?thesis by simp
      next
        case nr: (Inr need_retry')
        from "1.prems" True ex Inr nr
        have rec: "extraction_loop e c doc_text docs need_retry'
                     (if need_retry' then retry_count + 1 else retry_count) (Some y) st1 = (r, st')"
          by (simp add: extraction_loop.simps)
        from "1.IH" [OF True ex [symmetric] Inr nr rec] fr show ?thesis by simp
      qed
    qed
  qed
qed

lemma append_document_effect:
  "append_document e mm kb fname file_path c x st = ((mm', kb'), st') \<Longrightarrow>
   prefs_ref mm' = prefs_ref mm \<and> kb_preferences kb' = kb_preferences kb
   \<and> map doc_id (kb_documents kb') = map doc_id (kb_documents kb) @ [drawn_id e (uuid_calls st)]
   \<and> uuid_calls st' = Suc (uuid_calls st) \<and> heap st' = heap st \<and> next_ref st' = next_ref st
   \<and> knowledge_base_json st' = knowledge_base_json st \<and> persisted_ok e mm st'"
  by (auto simp: append_document_def update_session_def save_memory_def Let_def drawn_id_def
      persisted_ok_def load_memory_def)

lemma process_file_effect:
  assumes "process_file e mm kb fname st = (r, st')"
  shows "next_ref st' = next_ref st \<and> knowledge_base_json st' = knowledge_base_json st
     \<and> (\<forall>a. a \<noteq> prefs_ref mm \<longrightarrow> heap st' a = heap st a)
     \<and> (\<forall>k. set (level3_seen (heap st (prefs_ref mm)) k)
              \<subseteq> set (level3_seen (heap st' (prefs_ref mm)) k))
     \<and> (persisted_ok e mm st \<longrightarrow> persisted_ok e mm st')
     \<and> uuid_calls st \<le> uuid_calls st'
     \<and> ((\<forall>n r c k. completion e n = Some r \<longrightarrow> loads e (clean_response r) = Some c \<longrightarrow>
             py_getitem c ''level2'' = Inr k \<longrightarrow> is_string k) \<longrightarrow>
          string_keys (heap st (prefs_ref mm)) \<longrightarrow> string_keys (heap st' (prefs_ref mm)))
     \<and> (\<forall>mm' kb'. r = Inr (mm', kb') \<longrightarrow>
          prefs_ref mm' = prefs_ref mm \<and> kb_preferences kb' = kb_preferences kb
          \<and> map doc_id (kb_documents kb')
              = map doc_id (kb_documents kb) @ map (drawn_id e) [uuid_calls st ..< uuid_calls st'])"
proof (cases "fname \<in> set (map filename (kb_documents kb))
              \<or> (\<exists>err. parse e (path_join ''input_docs'' fname) = Inl err)")
  case True
  with assms have "r = Inr (mm, kb)" "st' = st"
    by (auto simp: process_file_def Let_def split: if_splits)
  then show ?thesis by simp
next
  case False
  then obtain body where p: "parse e (path_join ''input_docs'' fname) = Inr body"
    and nf: "fname \<notin> set (map filename (kb_documents kb))"
    by (cases "parse e (path_join ''input_docs'' fname)") auto
  obtain c st1 where cl: "classify e mm body fname st = (c, st1)"
    by (cases "classify e mm body fname st")
  obtain r2 st2 where lp: "extraction_loop e c body (kb_documents kb) True 0 None st1 = (r2, st2)"
    by (cases "extraction_loop e c body (kb_documents kb) True 0 None st1")
  note ce = classify_effect [OF cl]
  note le = extraction_loop_frame [OF lp]
  have grow: "set (level3_seen (heap st (prefs_ref mm)) k)
              \<subseteq> set (level3_seen (heap st1 (prefs_ref mm)) k)" for k
    using ce by (metis order_refl set_append sup_ge1)
  have pok: "persisted_ok e mm st \<Longrightarrow> persisted_ok e mm st2"
    using ce le by (simp add: persisted_ok_def load_memory_def)
  have keys: "(\<forall>n r c k. completion e n = Some r \<longrightarrow> loads e (clean_response r) = Some c \<longrightarrow>
             py_getitem c ''level2'' = Inr k \<longrightarrow> is_string k) \<Longrightarrow>
          string_keys (heap st (prefs_ref mm)) \<Longrightarrow> string_keys (heap st2 (prefs_ref mm))"
    using classify_string_keys [OF cl] le by simp
  have upto2: "next_ref st2 = next_ref st" "knowledge_base_json st2 = knowledge_base_json st"
    "\<forall>a. a \<noteq> prefs_ref mm \<longrightarrow> heap st2 a = heap st a"
    "uuid_calls st2 = uuid_calls st" "heap st2 (prefs_ref mm) = heap st1 (prefs_ref mm)"
    using ce le by simp_all
  show ?thesis
  proof (cases "\<exists>x k. r2 = Inr (Some x, k) \<and> print_classification c = Inr ()")
    case False
    with assms p nf cl lp have "st' = st2" "\<exists>err. r = Inl err"
      by (auto simp: process_file_def Let_def split: sum.splits option.splits prod.splits)
    with upto2 grow pok keys show ?thesis by auto
  next
    case True
    then obtain x k where x: "r2 = Inr (Some x, k)" "print_classification c = Inr ()"
      by blast
    obtain mm' kb' st3 where ap:
      "append_document e mm kb fname (path_join ''input_docs'' fname) c x st2 = ((mm', kb'), st3)"
      by (cases "append_document e mm kb fname (path_join ''input_docs'' fname) c x st2") auto
    note ae = append_document_effect [OF ap]
    from assms p nf cl lp x ap have res: "r = Inr (mm', kb')" "st' = st3"
      by (auto simp: process_file_def Let_def)
    from ae have h3: "heap st3 = heap st2" by simp
    show ?thesis
      using ae upto2 grow keys by (simp add: res h3)
  qed
qed

lemma persisted_ok_ref:
  "prefs_ref mm' = prefs_ref mm \<Longrightarrow> persisted_ok e mm' st = persisted_ok e mm st"
  by (simp add: persisted_ok_def)

lemma process_files_effect:
  "process_files e mm kb files st = (r, st') \<Longrightarrow>
   next_ref st' = next_ref st \<and> knowledge_base_json st' = knowledge_base_json st
     \<and> (\<forall>a. a \<noteq> prefs_ref mm \<longrightarrow> heap st' a = heap st a)
     \<and> (\<forall>k. set (level3_seen (heap st (prefs_ref mm)) k)
              \<subseteq> set (level3_seen (heap st' (prefs_ref mm)) k))
     \<and> (persisted_ok e mm st \<longrightarrow> persisted_ok e mm st')
     \<and> uuid_calls st \<le> uuid_calls st'
     \<and> ((\<forall>n r c k. completion e n = Some r \<longrightarrow> loads e (clean_response r) = Some c \<longrightarrow>
             py_getitem c ''level2'' = Inr k \<longrightarrow> is_string k) \<longrightarrow>
          string_keys (heap st (prefs_ref mm)) \<longrightarrow> string_keys (heap st' (prefs_ref mm)))
     \<and> (\<forall>mm' kb'. r = Inr (mm', kb') \<longrightarrow>
          prefs_ref mm' = prefs_ref mm \<and> kb_preferences kb' = kb_preferences kb
          \<and> map doc_id (kb_documents kb')
              = map doc_id (kb_documents kb) @ map (drawn_id e) [uuid_calls st ..< uuid_calls st'])"
proof (induction files arbitrary: mm kb st)
  case Nil
  then show ?case by auto
next
  case (Cons fname rest)
  obtain r1 st1 where pf: "process_file e mm kb fname st = (r1, st1)"
    by (cases "process_file e mm kb fname st")
  note fe = process_file_effect [OF pf]
  show ?case
  proof (cases r1)
    case (Inl err)
    with Cons.prems pf have "r = Inl err" "st' = st1" by auto
    with fe show ?thesis by simp
  next
    case (Inr p)
    obtain mm1 kb1 where p: "p = (mm1, kb1)" by (cases p)
    with Cons.prems pf Inr have rec: "process_files e mm1 kb1 rest st1 = (r, st')" by simp
    note ih = Cons.IH [OF rec]
    from fe Inr p have m1: "prefs_ref mm1 = prefs_ref mm" "kb_preferences kb1 = kb_preferences kb"
      and ids1: "map doc_id (kb_documents kb1)
         = map doc_id (kb_documents kb) @ map (drawn_id e) [uuid_calls st ..< uuid_calls st1]"
      by simp_all
    from fe have f: "next_ref st1 = next_ref st" "knowledge_base_json st1 = knowledge_base_json st"
      "uuid_calls st \<le> uuid_calls st1"
      and fh: "\<And>a. a \<noteq> prefs_ref mm \<Longrightarrow> heap st1 a = heap st a"
      and fg: "\<And>k. set (level3_seen (heap st (prefs_ref mm)) k)
                     \<subseteq> set (level3_seen (heap st1 (prefs_ref mm)) k)"
      and fp: "persisted_ok e mm st \<Longrightarrow> persisted_ok e mm st1"
      and fk: "(\<forall>n r c k. completion e n = Some r \<longrightarrow> loads e (clean_response r) = Some c \<longrightarrow>
             py_getitem c ''level2'' = Inr k \<longrightarrow> is_string k) \<Longrightarrow>
          string_keys (heap st (prefs_ref mm)) \<Longrightarrow> string_keys (heap st1 (prefs_ref mm))"
      by simp_all
    from ih m1(1) have g: "next_ref st' = next_ref st1"
      "knowledge_base_json st' = knowledge_base_json st1" "uuid_calls st1 \<le> uuid_calls st'"
      and gh: "\<And>a. a \<noteq> prefs_ref mm \<Longrightarrow> heap st' a = heap st1 a"
      and gg: "\<And>k. set (level3_seen (heap st1 (prefs_ref mm)) k)
                     \<subseteq> set (level3_seen (heap st' (prefs_ref mm)) k)"
      and gp: "persisted_ok e mm1 st1 \<Longrightarrow> persisted_ok e mm1 st'"
      and gk: "(\<forall>n r c k. completion e n = Some r \<longrightarrow> loads e (clean_response r) = Some c \<longrightarrow>
             py_getitem c ''level2'' = Inr k \<longrightarrow> is_string k) \<Longrightarrow>
          string_keys (heap st1 (prefs_ref mm)) \<Longrightarrow> string_keys (heap st' (prefs_ref mm))"
      by simp_all
    from ih have gi: "\<And>mm' kb'. r = Inr (mm', kb') \<Longrightarrow>
          prefs_ref mm' = prefs_ref mm1 \<and> kb_preferences kb' = kb_preferences kb1
          \<and> map doc_id (kb_documents kb')
              = map doc_id (kb_documents kb1) @ map (drawn_id e) [uuid_calls st1 ..< uuid_calls st']"
      by blast
    have "[uuid_calls st ..< uuid_calls st'] =
               [uuid_calls st ..< uuid_calls st1] @ [uuid_calls st1 ..< uuid_calls st']"
      using f(3) g(3) by (metis le_Suc_ex upt_add_eq_append)
    then have upt: "map (drawn_id e) [uuid_calls st ..< uuid_calls st']
                    = map (drawn_id e) [uuid_calls st ..< uuid_calls st1]
                      @ map (drawn_id e) [uuid_calls st1 ..< uuid_calls st']"
      by (metis map_append)
    have c1: "next_ref st' = next_ref st" "knowledge_base_json st' = knowledge_base_json st"
      "uuid_calls st \<le> uuid_calls st'"
      using f g by simp_all
    have c2: "\<forall>a. a \<noteq> prefs_ref mm \<longrightarrow> heap st' a = heap st a"
      using fh gh by simp
    have c3: "\<forall>k. set (level3_seen (heap st (prefs_ref mm)) k)
                 \<subseteq> set (level3_seen (heap st' (prefs_ref mm)) k)"
      using fg gg by (meson order_trans)
    have c4: "persisted_ok e mm st \<longrightarrow> persisted_ok e mm st'"
      using fp gp persisted_ok_ref [OF m1(1)] by blast
    have c5: "\<forall>mm' kb'. r = Inr (mm', kb') \<longrightarrow>
          prefs_ref mm' = prefs_ref mm \<and> kb_preferences kb' = kb_preferences kb
          \<and> map doc_id (kb_documents kb')
              = map doc_id (kb_documents kb) @ map (drawn_id e) [uuid_calls st ..< uuid_calls st']"
    proof (intro allI impI)
      fix mm' kb' assume "r = Inr (mm', kb')"
      from gi [OF this] show "prefs_ref mm' = prefs_ref mm \<and> kb_preferences kb' = kb_preferences kb
          \<and> map doc_id (kb_documents kb')
              = map doc_id (kb_documents kb) @ map (drawn_id e) [uuid_calls st ..< uuid_calls st']"
        by (simp only: m1 ids1 upt append_assoc simp_thms)
    qed
    have c6: "(\<forall>n r c k. completion e n = Some r \<longrightarrow> loads e (clean_response r) = Some c \<longrightarrow>
             py_getitem c ''level2'' = Inr k \<longrightarrow> is_string k) \<longrightarrow>
          string_keys (heap st (prefs_ref mm)) \<longrightarrow> string_keys (heap st' (prefs_ref mm))"
      using fk gk by blast
    from c1 c2 c3 c4 c5 c6 show ?thesis by blast
  qed
qed

lemma new_memory_manager_effect:
  "new_memory_manager st = (mm, st1) \<Longrightarrow>
   prefs_ref mm = next_ref st \<and> next_ref st1 = Suc (next_ref st)
   \<and> heap st1 (prefs_ref mm) = load_preferences (memory_preferences (load_memory st))
   \<and> memory_json st1 = memory_json st \<and> knowledge_base_json st1 = knowledge_base_json st
   \<and> uuid_calls st1 = uuid_calls st \<and> persisted_ok e mm st1"
  by (auto simp: new_memory_manager_def Let_def persisted_ok_def load_memory_def dump_load)

lemma open_knowledge_base_effect:
  "open_knowledge_base mm st1 = (kb, st2) \<Longrightarrow> prefs_ref mm < next_ref st1 \<Longrightarrow>
   heap st2 (prefs_ref mm) = heap st1 (prefs_ref mm)
   \<and> memory_json st2 = memory_json st1 \<and> knowledge_base_json st2 = knowledge_base_json st1
   \<and> uuid_calls st2 = uuid_calls st1
   \<and> (knowledge_base_json st1 = None \<longrightarrow> kb_preferences kb = prefs_ref mm \<and> kb_documents kb = [])
   \<and> (\<forall>k0. knowledge_base_json st1 = Some k0 \<longrightarrow>
        kb_preferences kb \<noteq> prefs_ref mm
        \<and> heap st2 (kb_preferences kb) = load_preferences (user_preferences k0)
        \<and> kb_documents kb = documents k0)"
  by (auto simp: open_knowledge_base_def split: option.splits)

lemma process_documents_effect:
  assumes "process_documents e files st = (r, st')"
  shows "(\<forall>mm kb. r = Inr (mm, kb) \<and> files \<noteq> [] \<longrightarrow>
          stored_ids st' = stored_ids st @ map (drawn_id e) [uuid_calls st ..< uuid_calls st']
          \<and> (knowledge_base_json st = None \<longrightarrow>
                map_option user_preferences (knowledge_base_json st')
                  = Some (memory_preferences (load_memory st')))
          \<and> (\<forall>k0. knowledge_base_json st = Some k0 \<longrightarrow>
                map_option user_preferences (knowledge_base_json st') = Some (user_preferences k0)))
     \<and> ((files = [] \<or> (\<exists>err. r = Inl err)) \<longrightarrow> knowledge_base_json st' = knowledge_base_json st)
     \<and> ((\<forall>n r c k. completion e n = Some r \<longrightarrow> loads e (clean_response r) = Some c \<longrightarrow>
             py_getitem c ''level2'' = Inr k \<longrightarrow> is_string k) \<longrightarrow>
         (\<forall>s. set (stored_seen (memory_preferences (load_memory st)) s)
              \<subseteq> set (stored_seen (memory_preferences (load_memory st')) s)))"
proof -
  obtain mm st1 where nm: "new_memory_manager st = (mm, st1)"
    by (cases "new_memory_manager st")
  obtain kb st2 where ok: "open_knowledge_base mm st1 = (kb, st2)"
    by (cases "open_knowledge_base mm st1")
  obtain r3 st3 where pf: "process_files e mm kb files st2 = (r3, st3)"
    by (cases "process_files e mm kb files st2")
  note ne = new_memory_manager_effect [OF nm, of e]
  from ne have lt: "prefs_ref mm < next_ref st1" by simp
  note oe = open_knowledge_base_effect [OF ok lt]
  note fe = process_files_effect [OF pf]
  have h2: "heap st2 (prefs_ref mm) = load_preferences (memory_preferences (load_memory st))"
    using ne oe by metis
  have lm2: "load_memory st2 = load_memory st"
    using ne oe by (simp add: load_memory_def)
  have pok2: "persisted_ok e mm st2"
    by (simp add: persisted_ok_def lm2 h2 dump_load)
  have keys2: "string_keys (heap st2 (prefs_ref mm))"
    by (simp add: h2 load_string_keys)
  from fe pok2 have pok3: "persisted_ok e mm st3" by simp
  have grow3: "set (stored_seen (memory_preferences (load_memory st)) s)
                 \<subseteq> set (stored_seen (memory_preferences (load_memory st3)) s)"
    if H: "\<forall>n r c k. completion e n = Some r \<longrightarrow> loads e (clean_response r) = Some c \<longrightarrow>
             py_getitem c ''level2'' = Inr k \<longrightarrow> is_string k" for s
  proof -
    from fe H keys2 have keys3: "string_keys (heap st3 (prefs_ref mm))" by blast
    have a: "stored_seen (memory_preferences (load_memory st3)) s
             = level3_seen (heap st3 (prefs_ref mm)) (JString s)"
      using pok3 by (simp add: persisted_ok_def seen_dump [OF keys3])
    have b: "stored_seen (memory_preferences (load_memory st)) s
             = level3_seen (heap st2 (prefs_ref mm)) (JString s)"
      by (simp add: h2 seen_load)
    from fe have "set (level3_seen (heap st2 (prefs_ref mm)) (JString s))
                  \<subseteq> set (level3_seen (heap st3 (prefs_ref mm)) (JString s))"
      by blast
    then show ?thesis by (simp only: a b)
  qed
  show ?thesis
  proof (cases "files = []")
    case True
    with assms nm ok have "st' = st2" by (simp add: process_documents_def)
    with True ne oe lm2 show ?thesis by simp
  next
    case False
    show ?thesis
    proof (cases r3)
      case (Inl err)
      with assms nm ok pf False have "r = Inl err" "st' = st3"
        by (auto simp: process_documents_def)
      with grow3 fe ne oe show ?thesis by simp
    next
      case (Inr p)
      obtain mm' kb' where p: "p = (mm', kb')" by (cases p)
      with assms nm ok pf False Inr
      have res: "r = Inr (mm', kb')" "st' = dump_knowledge_base e kb' st3"
        by (auto simp: process_documents_def)
      from fe Inr p have k: "kb_preferences kb' = kb_preferences kb"
        "map doc_id (kb_documents kb')
           = map doc_id (kb_documents kb) @ map (drawn_id e) [uuid_calls st2 ..< uuid_calls st3]"
        by simp_all
      have lm': "load_memory st' = load_memory st3" "uuid_calls st' = uuid_calls st3"
        "knowledge_base_json st'
           = Some \<lparr>documents = kb_documents kb',
                   user_preferences = dump_preferences e (heap st3 (kb_preferences kb'))\<rparr>"
        by (simp_all add: res dump_knowledge_base_def load_memory_def)
      have u2: "uuid_calls st2 = uuid_calls st" using ne oe by simp
      have ids: "stored_ids st' = stored_ids st @ map (drawn_id e) [uuid_calls st ..< uuid_calls st']"
        using k(2) oe ne by (cases "knowledge_base_json st") (simp_all add: stored_ids_def lm' u2)
      have fresh: "knowledge_base_json st = None \<Longrightarrow>
          map_option user_preferences (knowledge_base_json st')
            = Some (memory_preferences (load_memory st'))"
        using oe ne k(1) pok3 by (simp add: lm' persisted_ok_def)
      have stale: "knowledge_base_json st = Some k0 \<Longrightarrow>
          map_option user_preferences (knowledge_base_json st') = Some (user_preferences k0)" for k0
        using oe ne k(1) fe by (simp add: lm' dump_load)
      have g': "(\<forall>n r c k. completion e n = Some r \<longrightarrow> loads e (clean_response r) = Some c \<longrightarrow>
             py_getitem c ''level2'' = Inr k \<longrightarrow> is_string k) \<longrightarrow>
         (\<forall>s. set (stored_seen (memory_preferences (load_memory st)) s)
              \<subseteq> set (stored_seen (memory_preferences (load_memory st')) s))"
        unfolding lm' using grow3 by blast
      from g' ids fresh stale False res show ?thesis
        by blast
    qed
  qed
qed


section \<open>Growth of the preferred level3 values\<close>




section \<open>The preference snapshot of the knowledge base\<close>

text \<open>
  C5 (the statement of the specification fails). A first run whose only input file has an
  unsupported format writes a knowledge base with the default preferences. The next run
  loads it, classifies \<^verbatim>\<open>a.txt\<close> as Technology, Programming, Python, which the preference
  store records, and completes; the knowledge base it writes still has the preferences
  that were loaded, with no level3 under Programming: the snapshot differs from the
  preference store.
\<close>

theorem snapshot_not_refreshed:
  "knowledge_base_json unsupported_only_state
     = Some \<lparr>documents = [], user_preferences = memory_preferences default_memory\<rparr>
   \<and> \<not> isl (fst (process_documents (example_env example_replies (\<lambda>n. [])) [''notes.md'', ''a.txt'']
                     unsupported_only_state))
   \<and> map_option user_preferences
        (knowledge_base_json
          (snd (process_documents (example_env example_replies (\<lambda>n. [])) [''notes.md'', ''a.txt'']
                  unsupported_only_state)))
       = Some \<lparr>stored_hierarchy = [''Technology'', ''Life'', ''Work'', ''Study''],
               stored_level3 = DAList.empty\<rparr>
   \<and> memory_preferences
        (load_memory
          (snd (process_documents (example_env example_replies (\<lambda>n. [])) [''notes.md'', ''a.txt'']
                  unsupported_only_state)))
       = \<lparr>stored_hierarchy = [''Technology'', ''Life'', ''Work'', ''Study''],
          stored_level3 = DAList.update ''Programming'' [JString ''Python''] DAList.empty\<rparr>
   \<and> map_option user_preferences
        (knowledge_base_json
          (snd (process_documents (example_env example_replies (\<lambda>n. [])) [''notes.md'', ''a.txt'']
                  unsupported_only_state)))
       \<noteq> Some (memory_preferences
                 (load_memory
                   (snd (process_documents (example_env example_replies (\<lambda>n. []))
                           [''notes.md'', ''a.txt''] unsupported_only_state))))"
proof -
  have s: "unsupported_only_state =
             initial_state\<lparr>next_ref := 1,
               knowledge_base_json :=
                 Some \<lparr>documents = [], user_preferences = memory_preferences default_memory\<rparr>\<rparr>"
    by (simp add: unsupported_only_state_def run_defs classify_defs example_defs reply_defs
        fun_upd_idem_iff)
  show ?thesis
    by (simp add: s extraction_loop.simps run_defs classify_defs example_defs reply_defs
        sublist_code)
qed

text \<open>
  C5 (amended). After a run that completes on a non-empty input directory: when no
  knowledge base file existed before the run, the \<open>user_preferences\<close> of the written
  knowledge base are the preferences of \<^verbatim>\<open>memory.json\<close> after the run; when one existed,
  they are the \<open>user_preferences\<close> that file had before the run, unchanged.
\<close>

theorem knowledge_base_snapshot:
  assumes "process_documents e files st = (r, st')" and "\<not> isl r" and "files \<noteq> []"
  shows "(knowledge_base_json st = None \<longrightarrow>
            map_option user_preferences (knowledge_base_json st')
              = Some (memory_preferences (load_memory st')))
       \<and> (\<forall>k0. knowledge_base_json st = Some k0 \<longrightarrow>
            map_option user_preferences (knowledge_base_json st') = Some (user_preferences k0))"
proof -
  from assms(2) obtain mm kb where "r = Inr (mm, kb)"
    by (cases r) auto
  with process_documents_effect [OF assms(1)] assms(3) show ?thesis
    by blast
qed

theorem knowledge_base_snapshot_witness:
  "\<not> isl (fst (process_documents (example_env example_replies (\<lambda>n. [])) [''a.txt''] initial_state))
   \<and> knowledge_base_json initial_state = None
   \<and> map_option user_preferences
        (knowledge_base_json
          (snd (process_documents (example_env example_replies (\<lambda>n. [])) [''a.txt''] initial_state)))
       = Some (memory_preferences
                 (load_memory
                   (snd (process_documents (example_env example_replies (\<lambda>n. [])) [''a.txt'']
                           initial_state))))
   \<and> stored_seen (memory_preferences
                    (load_memory
                      (snd (process_documents (example_env example_replies (\<lambda>n. [])) [''a.txt'']
                              initial_state)))) ''Programming'' = [JString ''Python'']"
proof -
  let ?run = "process_documents (example_env example_replies (\<lambda>n. [])) [''a.txt''] initial_state"
  have a: "\<not> isl (fst ?run)"
    by (simp add: extraction_loop.simps run_defs classify_defs example_defs reply_defs sublist_code)
  have b: "knowledge_base_json initial_state = None"
    by (simp add: initial_state_def)
  have c: "stored_seen (memory_preferences (load_memory (snd ?run))) ''Programming''
             = [JString ''Python'']"
    by (simp add: stored_seen_def extraction_loop.simps run_defs classify_defs example_defs
        reply_defs sublist_code)
  from knowledge_base_snapshot [OF surjective_pairing a] a b c show ?thesis
    by simp
qed

section \<open>The ids of the records\<close>



end
